theory Spec2Isabelle
  imports Complex_Main "HOL-Library.Sublist" "HOL-Library.Multiset"
begin

section \<open>Values and platform functions\<close>

text \<open>
  Arguments reach the server as JavaScript values decoded from JSON. A JSON number is a
  rational, so \<open>JNum\<close> carries a \<open>rat\<close>; an object is its property lookup, with
  \<open>JUndefined\<close> for a property that is not there.
\<close>

datatype jsval =
    JUndefined
  | JNull
  | JBool bool
  | JNum rat
  | JStr string
  | JArr "jsval list"
  | JObj "string \<Rightarrow> jsval"

text \<open>The union type \<open>"low" | "medium" | "high"\<close> of types.ts.\<close>

datatype priority = Low | Medium | High

fun priority_str :: "priority \<Rightarrow> string" where
  "priority_str Low = ''low''"
| "priority_str Medium = ''medium''"
| "priority_str High = ''high''"

text \<open>
  A zod issue: the kind of violation, the path of the offending field and the message the
  schema gives for it (when it gives one; otherwise zod supplies its default wording).
\<close>

datatype zod_code = invalid_type | too_small | too_big | invalid_enum_value | invalid_string

record zod_issue =
  code :: zod_code
  path :: "string list"
  custom :: "string option"

text \<open>
  What a JavaScript \<open>throw\<close> carries here: a \<open>ZodError\<close> with its issues, or any other
  \<open>Error\<close> with its message (a rejected query, a \<open>new Error(...)\<close> of the server).
\<close>

datatype js_error = Error string | ZodError "zod_issue list"

text \<open>The interface \<open>TodoItem\<close> of types.ts, which is also the shape of a row of \<open>todo_items\<close>.
  Timestamps are integers (instants on the database clock); a nullable column is an option.\<close>

record TodoItem =
  todo_id :: string
  title :: string
  description :: "string option"
  completed :: bool
  priority :: priority
  due_date :: "int option"
  created_at :: int
  updated_at :: int
  user_id :: string
  user_email :: string
  user_name :: string

text \<open>
  Functions of the platform (the JavaScript runtime, zod, PostgreSQL's locale) that the
  repository calls and does not define. They are parameters of the model:
  \<open>toLocaleDateString\<close> renders a date, \<open>JSON_stringify\<close> is \<open>JSON.stringify(todo, null, 2)\<close>,
  \<open>new_Date\<close> parses a date string to an instant, \<open>zod_datetime\<close> is the test of
  \<open>z.string().datetime()\<close>, \<open>zod_message\<close> is the \<open>message\<close> of a \<open>ZodError\<close>,
  \<open>completion_rate\<close> is the floating-point \<open>Math.round((completed / total) * 100)\<close>,
  \<open>lower\<close> is the case folding of one character that \<open>ILIKE\<close> compares with, and
  \<open>uuid_in\<close> is PostgreSQL's reading of a text as a \<open>UUID\<close>: nothing when the text is
  not one, otherwise the value in the spelling the engine prints (so two spellings of one
  value read the same).

  Strings are sequences of bytes, the UTF-8 encoding of the text.
\<close>

record platform =
  toLocaleDateString :: "int \<Rightarrow> string"
  JSON_stringify :: "TodoItem \<Rightarrow> string"
  new_Date :: "string \<Rightarrow> int"
  zod_datetime :: "string \<Rightarrow> bool"
  zod_message :: "zod_issue list \<Rightarrow> string"
  completion_rate :: "nat \<Rightarrow> nat \<Rightarrow> nat"
  lower :: "string \<Rightarrow> string"
  uuid_in :: "string \<Rightarrow> string option"

section \<open>The store: database.ts\<close>

text \<open>
  The table \<open>todo_items\<close> in storage order, and the instant \<open>CURRENT_TIMESTAMP\<close> reads.
\<close>

record db =
  todo_items :: "TodoItem list"
  CURRENT_TIMESTAMP :: int

record UserInfo =
  uid :: string
  email :: string
  name :: string

text \<open>\<open>CreateTodoRequest\<close> and \<open>UpdateTodoRequest\<close>: an optional field is an option.\<close>

record CreateTodoRequest =
  new_title :: string
  new_description :: "string option"
  new_priority :: "priority option"
  new_due_date :: "string option"

record UpdateTodoRequest =
  upd_title :: "string option"
  upd_description :: "string option"
  upd_completed :: "bool option"
  upd_priority :: "priority option"
  upd_due_date :: "string option"

text \<open>The \<open>filters\<close> argument of \<open>getAllTodos\<close>; \<open>limit\<close> and \<open>offset\<close> are JavaScript numbers.\<close>

record filters =
  f_completed :: "bool option"
  f_priority :: "priority option"
  f_search :: "string option"
  f_limit :: "rat option"
  f_offset :: "rat option"

record TodoStats =
  total :: nat
  n_completed :: nat
  pending :: nat
  overdue :: nat

text \<open>
  Every method of \<open>TodoDatabase\<close> first awaits \<open>pool.connect()\<close> and then a query; either
  may reject for reasons outside the arguments modelled here (no connection, a text too long
  for its column). That verdict for a call is the argument \<open>fault\<close>: \<open>None\<close> when the
  statements run, \<open>Some m\<close> when the call throws an error with message \<open>m\<close>. What the
  engine refuses because of the id, the limit or the offset is written out in each method.
  The \<open>finally\<close> block only releases the client.
\<close>

definition connect :: "string option \<Rightarrow> (js_error + 'a) \<Rightarrow> js_error + 'a" where
  "connect fault k = (case fault of Some m \<Rightarrow> Inl (Error m) | None \<Rightarrow> k)"

definition mapRowToTodoItem :: "TodoItem \<Rightarrow> TodoItem" where
  "mapRowToTodoItem row =
     \<lparr> todo_id = todo_id row,
       title = title row,
       description = description row,
       completed = completed row,
       priority = priority row,
       due_date = (case due_date row of Some t \<Rightarrow> Some t | None \<Rightarrow> None),
       created_at = created_at row,
       updated_at = updated_at row,
       user_id = user_id row,
       user_email = user_email row,
       user_name = user_name row \<rparr>"

text \<open>
  \<open>WHERE id = $1 AND user_id = $2\<close>. The column \<open>id\<close> is a \<open>UUID\<close>: the engine reads
  the text \<open>$1\<close> as a \<open>UUID\<close> and compares values; it refuses the query when the text
  is not a \<open>UUID\<close>. A row holds its id in the spelling the engine prints.
\<close>

definition owned_row :: "platform \<Rightarrow> string \<Rightarrow> string \<Rightarrow> TodoItem \<Rightarrow> bool" where
  "owned_row L i u r = (uuid_in L i = Some (todo_id r) \<and> user_id r = u)"

definition invalid_uuid :: "string \<Rightarrow> js_error" where
  "invalid_uuid i =
     Error (''invalid input syntax for type uuid: '' @ [CHR 0x22] @ i @ [CHR 0x22])"

text \<open>
  \<open>createTodo\<close>. The id is what \<open>gen_random_uuid()\<close> returns, an argument here; the
  primary key refuses an id the table already holds. \<open>x || null\<close> turns the empty string
  into \<open>NULL\<close> as well as \<open>undefined\<close>.
\<close>

definition createTodo ::
  "platform \<Rightarrow> string option \<Rightarrow> string \<Rightarrow> db \<Rightarrow> CreateTodoRequest \<Rightarrow> UserInfo
     \<Rightarrow> js_error + (TodoItem \<times> db)" where
  "createTodo L fault gen_random_uuid d todo user =
     connect fault
       (if gen_random_uuid \<in> set (map todo_id (todo_items d))
        then Inl (Error ''duplicate key value violates unique constraint'')
        else
          let row = \<lparr> todo_id = gen_random_uuid,
                      title = new_title todo,
                      description = (case new_description todo of
                                       None \<Rightarrow> None
                                     | Some s \<Rightarrow> if s = [] then None else Some s),
                      completed = False,
                      priority = (case new_priority todo of None \<Rightarrow> Medium | Some p \<Rightarrow> p),
                      due_date = (case new_due_date todo of
                                    None \<Rightarrow> None
                                  | Some s \<Rightarrow> if s = [] then None else Some (new_Date L s)),
                      created_at = CURRENT_TIMESTAMP d,
                      updated_at = CURRENT_TIMESTAMP d,
                      user_id = uid user,
                      user_email = email user,
                      user_name = name user \<rparr>
          in Inr (mapRowToTodoItem row, d\<lparr>todo_items := todo_items d @ [row]\<rparr>))"

definition getTodoById ::
  "platform \<Rightarrow> string option \<Rightarrow> db \<Rightarrow> string \<Rightarrow> string \<Rightarrow> js_error + TodoItem option" where
  "getTodoById L fault d i userId =
     connect fault
       (if uuid_in L i = None then Inl (invalid_uuid i)
        else
          case filter (owned_row L i userId) (todo_items d) of
            [] \<Rightarrow> Inr None
          | row # _ \<Rightarrow> Inr (Some (mapRowToTodoItem row)))"

text \<open>
  \<open>updateTodo\<close>: one \<open>SET\<close> clause per field of \<open>updates\<close> that is not \<open>undefined\<close>, in the
  source's order. With no clause the method is \<open>getTodoById\<close>; otherwise
  \<open>updated_at = CURRENT_TIMESTAMP\<close> is added and the \<open>UPDATE ... RETURNING *\<close> runs.
\<close>

definition setClauses :: "platform \<Rightarrow> UpdateTodoRequest \<Rightarrow> (TodoItem \<Rightarrow> TodoItem) list" where
  "setClauses L updates =
     (case upd_title updates of None \<Rightarrow> [] | Some t \<Rightarrow> [\<lambda>r. r\<lparr>title := t\<rparr>]) @
     (case upd_description updates of None \<Rightarrow> [] | Some s \<Rightarrow> [\<lambda>r. r\<lparr>description := Some s\<rparr>]) @
     (case upd_completed updates of None \<Rightarrow> [] | Some b \<Rightarrow> [\<lambda>r. r\<lparr>completed := b\<rparr>]) @
     (case upd_priority updates of None \<Rightarrow> [] | Some p \<Rightarrow> [\<lambda>r. r\<lparr>priority := p\<rparr>]) @
     (case upd_due_date updates of
        None \<Rightarrow> []
      | Some s \<Rightarrow> [\<lambda>r. r\<lparr>due_date := (if s = [] then None else Some (new_Date L s))\<rparr>])"

definition apply_set :: "(TodoItem \<Rightarrow> TodoItem) list \<Rightarrow> TodoItem \<Rightarrow> TodoItem" where
  "apply_set clauses r = fold (\<lambda>c acc. c acc) clauses r"

definition updateTodo ::
  "platform \<Rightarrow> string option \<Rightarrow> db \<Rightarrow> string \<Rightarrow> UpdateTodoRequest \<Rightarrow> string
     \<Rightarrow> js_error + (TodoItem option \<times> db)" where
  "updateTodo L fault d i updates userId =
     connect fault
       (let clauses = setClauses L updates in
        if length clauses = 0
        then (case getTodoById L fault d i userId of
                Inl e \<Rightarrow> Inl e
              | Inr found \<Rightarrow> Inr (found, d))
        else if uuid_in L i = None then Inl (invalid_uuid i)
        else
          let clauses' = clauses @ [\<lambda>r. r\<lparr>updated_at := CURRENT_TIMESTAMP d\<rparr>];
              returning = map (apply_set clauses') (filter (owned_row L i userId) (todo_items d));
              d' = d\<lparr>todo_items :=
                      map (\<lambda>r. if owned_row L i userId r then apply_set clauses' r else r)
                        (todo_items d)\<rparr>
          in (case returning of
                [] \<Rightarrow> Inr (None, d')
              | row # _ \<Rightarrow> Inr (Some (mapRowToTodoItem row), d')))"

text \<open>\<open>deleteTodo\<close>: \<open>rowCount\<close> is the number of rows the \<open>DELETE\<close> removed.\<close>

definition deleteTodo ::
  "platform \<Rightarrow> string option \<Rightarrow> db \<Rightarrow> string \<Rightarrow> string \<Rightarrow> js_error + (bool \<times> db)" where
  "deleteTodo L fault d i userId =
     connect fault
       (if uuid_in L i = None then Inl (invalid_uuid i)
        else
          let rowCount = length (filter (owned_row L i userId) (todo_items d));
              d' = d\<lparr>todo_items := filter (\<lambda>r. \<not> owned_row L i userId r) (todo_items d)\<rparr>
          in Inr (rowCount > 0, d'))"

text \<open>
  \<open>getTodoStats\<close>: four counts over the rows with \<open>user_id = $1\<close>. A comparison with a
  \<open>NULL\<close> due date is not true, so such a row is not counted by the last filter.
\<close>

definition getTodoStats :: "string option \<Rightarrow> db \<Rightarrow> string \<Rightarrow> js_error + TodoStats" where
  "getTodoStats fault d userId =
     connect fault
       (let mine = filter (\<lambda>r. user_id r = userId) (todo_items d) in
        Inr \<lparr> total = length mine,
              n_completed = length (filter (\<lambda>r. completed r = True) mine),
              pending = length (filter (\<lambda>r. completed r = False) mine),
              overdue = length (filter (\<lambda>r. completed r = False \<and>
                          (case due_date r of
                             None \<Rightarrow> False
                           | Some t \<Rightarrow> t < CURRENT_TIMESTAMP d)) mine) \<rparr>)"

text \<open>
  The characters of a text: a byte that is not a continuation byte of UTF-8 starts a
  character, and the continuation bytes that follow belong to it.
\<close>

definition continuation :: "char \<Rightarrow> bool" where
  "continuation c = (128 \<le> (of_char c :: nat) \<and> (of_char c :: nat) < 192)"

function utf8_chars :: "string \<Rightarrow> string list" where
  "utf8_chars [] = []"
| "utf8_chars (c # s) = (c # takeWhile continuation s) # utf8_chars (dropWhile continuation s)"
  by pat_completeness auto
termination
  by (relation "measure length") (auto simp: le_imp_less_Suc length_dropWhile_le)

text \<open>
  \<open>ILIKE\<close>, PostgreSQL's pattern match with case folded, character by character: in the
  pattern \<open>%\<close> stands for any run of characters, \<open>_\<close> for any one character, a
  backslash makes the next character literal, and every other character stands for itself.
  (A pattern that ends in a lone backslash is refused by the engine; \<open>getAllTodos\<close> never
  builds one, its pattern ends in \<open>%\<close>, and the matcher answers no there.)
\<close>

fun like_match :: "(string \<Rightarrow> string) \<Rightarrow> string list \<Rightarrow> string list \<Rightarrow> bool" where
  "like_match lc [] [] = True"
| "like_match lc [] (c # t) = False"
| "like_match lc (p # ps) [] = (p = ''%'' \<and> like_match lc ps [])"
| "like_match lc (p # ps) (c # t) =
     (if p = ''%'' then like_match lc ps (c # t) \<or> like_match lc (p # ps) t
      else if p = ''_'' then like_match lc ps t
      else if p = [CHR 0x5C] then
        (case ps of [] \<Rightarrow> False | q # qs \<Rightarrow> lc c = lc q \<and> like_match lc qs t)
      else lc c = lc p \<and> like_match lc ps t)"

definition ILIKE :: "platform \<Rightarrow> string \<Rightarrow> string \<Rightarrow> bool" where
  "ILIKE L subject pattern = like_match (lower L) (utf8_chars pattern) (utf8_chars subject)"

text \<open>
  The \<open>WHERE\<close> conditions of \<open>getAllTodos\<close>, pushed in the source's order: the owner
  always, \<open>completed\<close> when it is not \<open>undefined\<close>, \<open>priority\<close> and \<open>search\<close> when
  they are truthy (a priority never is the empty string). A \<open>NULL\<close> description matches
  no pattern.
\<close>

definition whereConditions :: "platform \<Rightarrow> string \<Rightarrow> filters \<Rightarrow> (TodoItem \<Rightarrow> bool) list" where
  "whereConditions L userId f =
     [\<lambda>r. user_id r = userId] @
     (case f_completed f of None \<Rightarrow> [] | Some b \<Rightarrow> [\<lambda>r. completed r = b]) @
     (case f_priority f of None \<Rightarrow> [] | Some p \<Rightarrow> [\<lambda>r. priority r = p]) @
     (case f_search f of
        None \<Rightarrow> []
      | Some s \<Rightarrow>
          if s = [] then []
          else [\<lambda>r. ILIKE L (title r) (''%'' @ s @ ''%'') \<or>
                     (case description r of
                        None \<Rightarrow> False
                      | Some x \<Rightarrow> ILIKE L x (''%'' @ s @ ''%''))])"

definition is_integer :: "rat \<Rightarrow> bool" where
  "is_integer q = (of_int \<lfloor>q\<rfloor> = q)"

text \<open>
  A JavaScript number as the engine reads it for \<open>LIMIT\<close> and \<open>OFFSET\<close>. The client
  sends the number as text; the engine refuses a text that is not an integer (a fraction, or
  the exponent form JavaScript prints from \<open>10^21\<close> on) and an integer beyond 64 bits.
\<close>

definition bigint_in :: "rat \<Rightarrow> string + int" where
  "bigint_in q =
     (if \<not> is_integer q \<or> 10 ^ 21 \<le> \<bar>q\<bar>
      then Inl ''invalid input syntax for type bigint''
      else if q < - (2 ^ 63) \<or> 2 ^ 63 - 1 < q
      then Inl ''value is out of range for type bigint''
      else Inr \<lfloor>q\<rfloor>)"

text \<open>
  \<open>getAllTodos\<close>: the count of the rows that satisfy every condition, then the page.
  \<open>filters.limit || 50\<close> and \<open>filters.offset || 0\<close> replace \<open>undefined\<close> and \<open>0\<close>.
  \<open>LIMIT\<close> and \<open>OFFSET\<close> take a non-negative 64-bit integer: the engine refuses the
  second query for any other number. \<open>ORDER BY created_at DESC\<close> names no second key:
  the rows come newest first, and rows of equal \<open>created_at\<close> in an order the engine
  chooses for each query, the argument \<open>rank\<close> (lower rank first).
\<close>

definition getAllTodos ::
  "platform \<Rightarrow> string option \<Rightarrow> (TodoItem \<Rightarrow> nat) \<Rightarrow> db \<Rightarrow> string \<Rightarrow> filters
     \<Rightarrow> js_error + (TodoItem list \<times> nat)" where
  "getAllTodos L fault rank d userId f =
     connect fault
       (let conds = whereConditions L userId f;
            matching = filter (\<lambda>r. list_all (\<lambda>c. c r) conds) (todo_items d);
            totalCount = length matching;
            limit = (case f_limit f of None \<Rightarrow> 50 | Some n \<Rightarrow> if n = 0 then 50 else n);
            offset = (case f_offset f of None \<Rightarrow> 0 | Some n \<Rightarrow> if n = 0 then 0 else n)
        in case bigint_in limit of
             Inl m \<Rightarrow> Inl (Error m)
           | Inr n_limit \<Rightarrow>
               (case bigint_in offset of
                  Inl m \<Rightarrow> Inl (Error m)
                | Inr n_offset \<Rightarrow>
                    if n_limit < 0 then Inl (Error ''LIMIT must not be negative'')
                    else if n_offset < 0 then Inl (Error ''OFFSET must not be negative'')
                    else Inr (map mapRowToTodoItem
                                (take (nat n_limit)
                                   (drop (nat n_offset)
                                      (sort_key (\<lambda>r. - created_at r)
                                         (sort_key rank matching)))),
                              totalCount)))"

section \<open>The schemas: types.ts\<close>

text \<open>
  A zod schema applied to a value gives the parsed value or the issues found. The issues
  of the fields of an object are collected in the order of its shape.
\<close>

definition issue :: "zod_code \<Rightarrow> string \<Rightarrow> string option \<Rightarrow> zod_issue" where
  "issue c p m = \<lparr> code = c, path = [p], custom = m \<rparr>"

definition checked :: "'a \<Rightarrow> ('a \<Rightarrow> zod_issue list) list \<Rightarrow> zod_issue list + 'a" where
  "checked x checks =
     (let found = concat (map (\<lambda>chk. chk x) checks)
      in if found = [] then Inr x else Inl found)"

definition z_string ::
  "string \<Rightarrow> (string \<Rightarrow> zod_issue list) list \<Rightarrow> jsval \<Rightarrow> zod_issue list + string" where
  "z_string p checks v =
     (case v of JStr s \<Rightarrow> checked s checks | _ \<Rightarrow> Inl [issue invalid_type p None])"

definition z_number ::
  "string \<Rightarrow> (rat \<Rightarrow> zod_issue list) list \<Rightarrow> jsval \<Rightarrow> zod_issue list + rat" where
  "z_number p checks v =
     (case v of JNum n \<Rightarrow> checked n checks | _ \<Rightarrow> Inl [issue invalid_type p None])"

definition z_boolean :: "string \<Rightarrow> jsval \<Rightarrow> zod_issue list + bool" where
  "z_boolean p v = (case v of JBool b \<Rightarrow> Inr b | _ \<Rightarrow> Inl [issue invalid_type p None])"

definition z_enum_priority :: "string \<Rightarrow> jsval \<Rightarrow> zod_issue list + priority" where
  "z_enum_priority p v =
     (case v of
        JStr s \<Rightarrow>
          if s = ''low'' then Inr Low
          else if s = ''medium'' then Inr Medium
          else if s = ''high'' then Inr High
          else Inl [issue invalid_enum_value p None]
      | _ \<Rightarrow> Inl [issue invalid_type p None])"

definition z_optional ::
  "(jsval \<Rightarrow> zod_issue list + 'a) \<Rightarrow> jsval \<Rightarrow> zod_issue list + 'a option" where
  "z_optional schema v =
     (case v of
        JUndefined \<Rightarrow> Inr None
      | _ \<Rightarrow> (case schema v of Inl is \<Rightarrow> Inl is | Inr x \<Rightarrow> Inr (Some x)))"

definition z_default :: "'a \<Rightarrow> (jsval \<Rightarrow> zod_issue list + 'a) \<Rightarrow> jsval \<Rightarrow> zod_issue list + 'a" where
  "z_default dflt schema v = (case v of JUndefined \<Rightarrow> Inr dflt | _ \<Rightarrow> schema v)"

text \<open>
  The \<open>length\<close> of a JavaScript string, which \<open>.min()\<close> and \<open>.max()\<close> compare: its
  UTF-16 code units, two for a character of four bytes in UTF-8, one for every other.
\<close>

definition utf16_length :: "string \<Rightarrow> nat" where
  "utf16_length s = sum_list (map (\<lambda>c. if length c = 4 then 2 else 1) (utf8_chars s))"

definition min_length :: "string \<Rightarrow> nat \<Rightarrow> string option \<Rightarrow> string \<Rightarrow> zod_issue list" where
  "min_length p n m s = (if utf16_length s < n then [issue too_small p m] else [])"

definition max_length :: "string \<Rightarrow> nat \<Rightarrow> string option \<Rightarrow> string \<Rightarrow> zod_issue list" where
  "max_length p n m s = (if utf16_length s > n then [issue too_big p m] else [])"

definition datetime :: "platform \<Rightarrow> string \<Rightarrow> string \<Rightarrow> zod_issue list" where
  "datetime L p s = (if zod_datetime L s then [] else [issue invalid_string p None])"

definition min_number :: "string \<Rightarrow> rat \<Rightarrow> rat \<Rightarrow> zod_issue list" where
  "min_number p lo n = (if n < lo then [issue too_small p None] else [])"

definition max_number :: "string \<Rightarrow> rat \<Rightarrow> rat \<Rightarrow> zod_issue list" where
  "max_number p hi n = (if n > hi then [issue too_big p None] else [])"

text \<open>One more field of an object: the issues of both sides are kept, in order.\<close>

definition z_field ::
  "(zod_issue list + ('a \<Rightarrow> 'b)) \<Rightarrow> (zod_issue list + 'a) \<Rightarrow> zod_issue list + 'b" where
  "z_field rf rx =
     (case rf of
        Inr g \<Rightarrow> (case rx of Inr x \<Rightarrow> Inr (g x) | Inl ix \<Rightarrow> Inl ix)
      | Inl is \<Rightarrow> (case rx of Inr x \<Rightarrow> Inl is | Inl ix \<Rightarrow> Inl (is @ ix)))"

text \<open>\<open>z.object(shape).parse(params)\<close>: anything but an object is one issue at the root;
  a failed parse throws the \<open>ZodError\<close>.\<close>

definition z_object ::
  "((string \<Rightarrow> jsval) \<Rightarrow> zod_issue list + 'a) \<Rightarrow> jsval \<Rightarrow> js_error + 'a" where
  "z_object shape params =
     (case params of
        JObj obj \<Rightarrow> (case shape obj of Inl is \<Rightarrow> Inl (ZodError is) | Inr x \<Rightarrow> Inr x)
      | _ \<Rightarrow> Inl (ZodError [\<lparr> code = invalid_type, path = [], custom = None \<rparr>]))"

definition title_checks :: "(string \<Rightarrow> zod_issue list) list" where
  "title_checks =
     [min_length ''title'' 1 (Some ''Title is required''),
      max_length ''title'' 255 (Some ''Title too long'')]"

definition description_checks :: "(string \<Rightarrow> zod_issue list) list" where
  "description_checks = [max_length ''description'' 1000 (Some ''Description too long'')]"

definition CreateTodoSchema :: "platform \<Rightarrow> jsval \<Rightarrow> js_error + CreateTodoRequest" where
  "CreateTodoSchema L =
     z_object (\<lambda>obj.
       z_field (z_field (z_field (z_field
         (Inr (\<lambda>t ds p du.
            \<lparr> new_title = t, new_description = ds, new_priority = Some p, new_due_date = du \<rparr>))
         (z_string ''title'' title_checks (obj ''title'')))
         (z_optional (z_string ''description'' description_checks) (obj ''description'')))
         (z_default Medium (z_enum_priority ''priority'') (obj ''priority'')))
         (z_optional (z_string ''due_date'' [datetime L ''due_date'']) (obj ''due_date'')))"

text \<open>The schema \<open>updateTodo\<close> builds: \<open>id\<close> and the shape of \<open>UpdateTodoSchema\<close>.\<close>

definition UpdateTodoSchema_with_id ::
  "platform \<Rightarrow> jsval \<Rightarrow> js_error + (string \<times> UpdateTodoRequest)" where
  "UpdateTodoSchema_with_id L =
     z_object (\<lambda>obj.
       z_field (z_field (z_field (z_field (z_field (z_field
         (Inr (\<lambda>i t ds c p du.
            (i, \<lparr> upd_title = t, upd_description = ds, upd_completed = c,
                  upd_priority = p, upd_due_date = du \<rparr>)))
         (z_string ''id'' [] (obj ''id'')))
         (z_optional (z_string ''title'' title_checks) (obj ''title'')))
         (z_optional (z_string ''description'' description_checks) (obj ''description'')))
         (z_optional (z_boolean ''completed'') (obj ''completed'')))
         (z_optional (z_enum_priority ''priority'') (obj ''priority'')))
         (z_optional (z_string ''due_date'' [datetime L ''due_date'']) (obj ''due_date'')))"

definition TodoFilterSchema :: "jsval \<Rightarrow> js_error + filters" where
  "TodoFilterSchema =
     z_object (\<lambda>obj.
       z_field (z_field (z_field (z_field (z_field
         (Inr (\<lambda>c p s l off.
            \<lparr> f_completed = c, f_priority = p, f_search = s,
              f_limit = Some l, f_offset = Some off \<rparr>))
         (z_optional (z_boolean ''completed'') (obj ''completed'')))
         (z_optional (z_enum_priority ''priority'') (obj ''priority'')))
         (z_optional (z_string ''search'' []) (obj ''search'')))
         (z_default 50 (z_number ''limit'' [min_number ''limit'' 1, max_number ''limit'' 100])
            (obj ''limit'')))
         (z_default 0 (z_number ''offset'' [min_number ''offset'' 0]) (obj ''offset'')))"

text \<open>\<open>z.object({ id: z.string() })\<close>.\<close>

definition IdSchema :: "jsval \<Rightarrow> js_error + string" where
  "IdSchema = z_object (\<lambda>obj. z_field (Inr (\<lambda>i. i)) (z_string ''id'' [] (obj ''id'')))"

section \<open>The server: mcp-server.ts\<close>

text \<open>
  A block of a \<open>CallToolResult\<close> is a text or a resource link
  (\<open>uri\<close>, \<open>name\<close>, \<open>mimeType\<close>, \<open>description\<close>).
\<close>

datatype content_block =
    Text string
  | ResourceLink string string string "string option"

record CallToolResult =
  content :: "content_block list"

record ReadResourceResult =
  contents :: "(string \<times> string) list"

datatype role = User | Assistant

record GetPromptResult =
  messages :: "(role \<times> string) list"

text \<open>
  The request headers as Node's http module hands them over: a header name gives its
  value, a string, or nothing.
\<close>

type_synonym headers = "string \<Rightarrow> string option"

text \<open>\<open>x || dflt\<close> for a string or \<open>undefined\<close>: the empty string is falsy.\<close>

definition or_else :: "string option \<Rightarrow> string \<Rightarrow> string" where
  "or_else x dflt = (case x of None \<Rightarrow> dflt | Some s \<Rightarrow> if s = [] then dflt else s)"

definition extractUserInfo :: "headers \<Rightarrow> UserInfo" where
  "extractUserInfo hs =
     (let userId = or_else (hs ''x-forwarded-user'') ''anonymous'';
          email = or_else (hs ''x-forwarded-email'') ''anonymous@example.com'';
          name = or_else (hs ''x-forwarded-name'') ''Anonymous User''
      in \<lparr> uid = userId, email = email, name = name \<rparr>)"

text \<open>\<open>try { ... } catch (error) { ... }\<close>, and \<open>error.message\<close> (every value thrown
  here is an \<open>Error\<close>).\<close>

definition try_catch :: "(js_error + 'a) \<Rightarrow> (js_error \<Rightarrow> js_error + 'a) \<Rightarrow> js_error + 'a" where
  "try_catch body handler = (case body of Inl e \<Rightarrow> handler e | Inr v \<Rightarrow> Inr v)"

definition message :: "platform \<Rightarrow> js_error \<Rightarrow> string" where
  "message L e = (case e of Error m \<Rightarrow> m | ZodError is \<Rightarrow> zod_message L is)"

text \<open>The characters of the templates that are not printable ASCII, as UTF-8 bytes.\<close>

definition nl :: string where "nl = [CHR 0x0A]"
definition dquote :: string where "dquote = [CHR 0x22]"
definition check_mark :: string where "check_mark = [CHR 0xE2, CHR 0x9C, CHR 0x85]"
definition cross_mark :: string where "cross_mark = [CHR 0xE2, CHR 0x9D, CHR 0x8C]"
definition hourglass :: string where "hourglass = [CHR 0xE2, CHR 0x8F, CHR 0xB3]"
definition memo :: string where "memo = [CHR 0xF0, CHR 0x9F, CHR 0x93, CHR 0x9D]"
definition red_circle :: string where "red_circle = [CHR 0xF0, CHR 0x9F, CHR 0x94, CHR 0xB4]"
definition yellow_circle :: string where "yellow_circle = [CHR 0xF0, CHR 0x9F, CHR 0x9F, CHR 0xA1]"
definition green_circle :: string where "green_circle = [CHR 0xF0, CHR 0x9F, CHR 0x9F, CHR 0xA2]"
definition wastebasket :: string where
  "wastebasket = [CHR 0xF0, CHR 0x9F, CHR 0x97, CHR 0x91, CHR 0xEF, CHR 0xB8, CHR 0x8F]"
definition bar_chart :: string where "bar_chart = [CHR 0xF0, CHR 0x9F, CHR 0x93, CHR 0x8A]"
definition siren :: string where "siren = [CHR 0xF0, CHR 0x9F, CHR 0x9A, CHR 0xA8]"
definition party :: string where "party = [CHR 0xF0, CHR 0x9F, CHR 0x8E, CHR 0x89]"

text \<open>A number in a template: its decimal digits.\<close>

fun show_nat :: "nat \<Rightarrow> string" where
  "show_nat n =
     (if n < 10 then [char_of (48 + n)]
      else show_nat (n div 10) @ [char_of (48 + n mod 10)])"

declare show_nat.simps [simp del]

text \<open>\<open>lines.join(sep)\<close>.\<close>

fun join :: "string \<Rightarrow> string list \<Rightarrow> string" where
  "join sep [] = []"
| "join sep [x] = x"
| "join sep (x # y # ys) = x @ sep @ join sep (y # ys)"

text \<open>The fragments the templates share. An empty or \<open>NULL\<close> description is falsy; a
  \<open>Date\<close> is truthy.\<close>

definition description_line :: "TodoItem \<Rightarrow> string" where
  "description_line todo =
     (case description todo of
        None \<Rightarrow> []
      | Some s \<Rightarrow> if s = [] then [] else ''Description: '' @ s @ nl)"

definition due_line :: "platform \<Rightarrow> TodoItem \<Rightarrow> string" where
  "due_line L todo =
     (case due_date todo of
        None \<Rightarrow> []
      | Some t \<Rightarrow> ''Due: '' @ toLocaleDateString L t @ nl)"

definition status_words :: "TodoItem \<Rightarrow> string" where
  "status_words todo =
     (if completed todo then check_mark @ '' Completed'' else hourglass @ '' Pending'')"

definition not_found :: "string \<Rightarrow> CallToolResult" where
  "not_found i =
     \<lparr> content = [Text (cross_mark @ '' TODO with ID '' @ dquote @ i @ dquote @ '' not found'')] \<rparr>"

definition failure :: "platform \<Rightarrow> string \<Rightarrow> js_error \<Rightarrow> CallToolResult" where
  "failure L what e = \<lparr> content = [Text (cross_mark @ what @ message L e)] \<rparr>"

definition tool_createTodo ::
  "platform \<Rightarrow> string option \<Rightarrow> string \<Rightarrow> db \<Rightarrow> jsval \<Rightarrow> headers
     \<Rightarrow> js_error + (CallToolResult \<times> db)" where
  "tool_createTodo L fault gen_random_uuid d params hs =
     try_catch
       (let user = extractUserInfo hs in
        case CreateTodoSchema L params of
          Inl e \<Rightarrow> Inl e
        | Inr validatedData \<Rightarrow>
            (case createTodo L fault gen_random_uuid d validatedData user of
               Inl e \<Rightarrow> Inl e
             | Inr (todo, d') \<Rightarrow>
                 Inr (\<lparr> content =
                         [Text (check_mark @ '' TODO created successfully!'' @ nl @ nl @
                            ''**'' @ title todo @ ''**'' @ nl @
                            description_line todo @
                            ''Priority: '' @ priority_str (priority todo) @ nl @
                            due_line L todo @
                            ''ID: '' @ todo_id todo)] \<rparr>, d')))
       (\<lambda>error. Inr (failure L '' Error creating TODO: '' error, d))"

definition tool_getTodo ::
  "platform \<Rightarrow> string option \<Rightarrow> db \<Rightarrow> jsval \<Rightarrow> headers \<Rightarrow> js_error + CallToolResult" where
  "tool_getTodo L fault d params hs =
     try_catch
       (let user = extractUserInfo hs in
        case IdSchema params of
          Inl e \<Rightarrow> Inl e
        | Inr i \<Rightarrow>
            (case getTodoById L fault d i (uid user) of
               Inl e \<Rightarrow> Inl e
             | Inr None \<Rightarrow> Inr (not_found i)
             | Inr (Some todo) \<Rightarrow>
                 Inr \<lparr> content =
                        [Text (''**'' @ title todo @ ''**'' @ nl @
                           description_line todo @
                           ''Status: '' @ status_words todo @ nl @
                           ''Priority: '' @ priority_str (priority todo) @ nl @
                           due_line L todo @
                           ''Created: '' @ toLocaleDateString L (created_at todo) @ nl @
                           ''Updated: '' @ toLocaleDateString L (updated_at todo) @ nl @
                           ''ID: '' @ todo_id todo)] \<rparr>))
       (\<lambda>error. Inr (failure L '' Error retrieving TODO: '' error))"

definition todo_line :: "platform \<Rightarrow> TodoItem \<Rightarrow> string" where
  "todo_line L todo =
     (let status = (if completed todo then check_mark else hourglass);
          prio = (if priority todo = High then red_circle
                  else if priority todo = Medium then yellow_circle
                  else green_circle);
          dueInfo = (case due_date todo of
                       None \<Rightarrow> []
                     | Some t \<Rightarrow> '' (Due: '' @ toLocaleDateString L t @ '')'')
      in status @ '' '' @ prio @ '' **'' @ title todo @ ''**'' @ dueInfo)"

definition tool_listTodos ::
  "platform \<Rightarrow> string option \<Rightarrow> (TodoItem \<Rightarrow> nat) \<Rightarrow> db \<Rightarrow> jsval \<Rightarrow> headers
     \<Rightarrow> js_error + CallToolResult" where
  "tool_listTodos L fault rank d params hs =
     try_catch
       (let user = extractUserInfo hs in
        case TodoFilterSchema params of
          Inl e \<Rightarrow> Inl e
        | Inr f \<Rightarrow>
            (case getAllTodos L fault rank d (uid user) f of
               Inl e \<Rightarrow> Inl e
             | Inr (todos, totalCount) \<Rightarrow>
                 if length todos = 0
                 then Inr \<lparr> content =
                        [Text (memo @ '' No TODO items found'' @
                           (case f_search f of
                              None \<Rightarrow> []
                            | Some s \<Rightarrow>
                                if s = [] then []
                                else '' matching '' @ dquote @ s @ dquote))] \<rparr>
                 else
                   let todoList = join nl (map (todo_line L) todos)
                   in Inr \<lparr> content =
                        [Text (memo @ '' Found '' @ show_nat totalCount @ '' TODO items (showing '' @
                           show_nat (length todos) @ ''):'' @ nl @ nl @ todoList)] \<rparr>))
       (\<lambda>error. Inr (failure L '' Error listing TODOs: '' error))"

definition tool_updateTodo ::
  "platform \<Rightarrow> string option \<Rightarrow> db \<Rightarrow> jsval \<Rightarrow> headers
     \<Rightarrow> js_error + (CallToolResult \<times> db)" where
  "tool_updateTodo L fault d params hs =
     try_catch
       (let user = extractUserInfo hs in
        case UpdateTodoSchema_with_id L params of
          Inl e \<Rightarrow> Inl e
        | Inr (i, updates) \<Rightarrow>
            (case updateTodo L fault d i updates (uid user) of
               Inl e \<Rightarrow> Inl e
             | Inr (None, d') \<Rightarrow> Inr (not_found i, d')
             | Inr (Some todo, d') \<Rightarrow>
                 Inr (\<lparr> content =
                         [Text (check_mark @ '' TODO updated successfully!'' @ nl @ nl @
                            ''**'' @ title todo @ ''**'' @ nl @
                            description_line todo @
                            ''Status: '' @ status_words todo @ nl @
                            ''Priority: '' @ priority_str (priority todo) @ nl @
                            due_line L todo @
                            ''Updated: '' @ toLocaleDateString L (updated_at todo) @ nl @
                            ''ID: '' @ todo_id todo)] \<rparr>, d')))
       (\<lambda>error. Inr (failure L '' Error updating TODO: '' error, d))"

definition tool_deleteTodo ::
  "platform \<Rightarrow> string option \<Rightarrow> db \<Rightarrow> jsval \<Rightarrow> headers
     \<Rightarrow> js_error + (CallToolResult \<times> db)" where
  "tool_deleteTodo L fault d params hs =
     try_catch
       (let user = extractUserInfo hs in
        case IdSchema params of
          Inl e \<Rightarrow> Inl e
        | Inr i \<Rightarrow>
            (case deleteTodo L fault d i (uid user) of
               Inl e \<Rightarrow> Inl e
             | Inr (success, d') \<Rightarrow>
                 if \<not> success then Inr (not_found i, d')
                 else Inr (\<lparr> content =
                         [Text (wastebasket @ '' TODO with ID '' @ dquote @ i @ dquote @
                            '' deleted successfully'')] \<rparr>, d')))
       (\<lambda>error. Inr (failure L '' Error deleting TODO: '' error, d))"

definition tool_getTodoStats ::
  "platform \<Rightarrow> string option \<Rightarrow> db \<Rightarrow> jsval \<Rightarrow> headers \<Rightarrow> js_error + CallToolResult" where
  "tool_getTodoStats L fault d params hs =
     try_catch
       (let user = extractUserInfo hs in
        case getTodoStats fault d (uid user) of
          Inl e \<Rightarrow> Inl e
        | Inr stats \<Rightarrow>
            Inr \<lparr> content =
                   [Text (bar_chart @ '' TODO Statistics for '' @ name user @ '':'' @ nl @ nl @
                      memo @ '' Total: '' @ show_nat (total stats) @ nl @
                      check_mark @ '' Completed: '' @ show_nat (n_completed stats) @ nl @
                      hourglass @ '' Pending: '' @ show_nat (pending stats) @ nl @
                      siren @ '' Overdue: '' @ show_nat (overdue stats) @ nl @ nl @
                      ''Completion Rate: '' @
                      show_nat (if total stats > 0
                                then completion_rate L (n_completed stats) (total stats)
                                else 0) @ ''%'')] \<rparr>)
       (\<lambda>error. Inr (failure L '' Error getting statistics: '' error))"

definition tool_completeTodo ::
  "platform \<Rightarrow> string option \<Rightarrow> db \<Rightarrow> jsval \<Rightarrow> headers
     \<Rightarrow> js_error + (CallToolResult \<times> db)" where
  "tool_completeTodo L fault d params hs =
     try_catch
       (let user = extractUserInfo hs in
        case IdSchema params of
          Inl e \<Rightarrow> Inl e
        | Inr i \<Rightarrow>
            (case updateTodo L fault d i
                    \<lparr> upd_title = None, upd_description = None, upd_completed = Some True,
                      upd_priority = None, upd_due_date = None \<rparr> (uid user) of
               Inl e \<Rightarrow> Inl e
             | Inr (None, d') \<Rightarrow> Inr (not_found i, d')
             | Inr (Some todo, d') \<Rightarrow>
                 Inr (\<lparr> content =
                         [Text (party @ '' Congratulations! TODO completed:'' @ nl @ nl @
                            ''**'' @ title todo @ ''**'' @ nl @
                            description_line todo @
                            ''Priority: '' @ priority_str (priority todo) @ nl @
                            ''Completed: '' @ toLocaleDateString L (updated_at todo) @ nl @
                            ''ID: '' @ todo_id todo)] \<rparr>, d')))
       (\<lambda>error. Inr (failure L '' Error completing TODO: '' error, d))"

text \<open>
  \<open>getTodoResources\<close>: the links are built from the page of items; the result returned
  is the two texts of the source.
\<close>

definition resourceLinks :: "platform \<Rightarrow> TodoItem list \<Rightarrow> content_block list" where
  "resourceLinks L todos =
     map (\<lambda>todo.
            ResourceLink (''todo://'' @ todo_id todo) (title todo) ''application/json''
              (Some ((if completed todo then ''Completed'' else ''Pending'') @ '' - '' @
                     priority_str (priority todo) @ '' priority'' @
                     (case due_date todo of
                        None \<Rightarrow> []
                      | Some t \<Rightarrow> '' - Due: '' @ toLocaleDateString L t))))
         todos"

definition tool_getTodoResources ::
  "platform \<Rightarrow> string option \<Rightarrow> (TodoItem \<Rightarrow> nat) \<Rightarrow> db \<Rightarrow> jsval \<Rightarrow> headers
     \<Rightarrow> js_error + CallToolResult" where
  "tool_getTodoResources L fault rank d params hs =
     try_catch
       (let user = extractUserInfo hs in
        case TodoFilterSchema params of
          Inl e \<Rightarrow> Inl e
        | Inr f \<Rightarrow>
            (case getAllTodos L fault rank d (uid user) f of
               Inl e \<Rightarrow> Inl e
             | Inr (todos, totalCount) \<Rightarrow>
                 let links = resourceLinks L todos
                 in Inr \<lparr> content =
                      [Text (memo @ '' Available TODO resources ('' @ show_nat (length links) @
                         '' items):''),
                       Text (nl @ ''You can read any of these resources using their URI.'')] \<rparr>))
       (\<lambda>error. Inr (failure L '' Error getting TODO resources: '' error))"

text \<open>\<open>s.replace(pat, rep)\<close> with a string pattern: the first occurrence only.\<close>

fun replace_first :: "string \<Rightarrow> string \<Rightarrow> string \<Rightarrow> string" where
  "replace_first pat rep [] = (if pat = [] then rep else [])"
| "replace_first pat rep (c # s) =
     (if prefix pat (c # s) then rep @ drop (length pat) (c # s)
      else c # replace_first pat rep s)"

text \<open>\<open>readTodoResource\<close>: the handler of its \<open>catch\<close> throws again.\<close>

definition readTodoResource ::
  "platform \<Rightarrow> string option \<Rightarrow> db \<Rightarrow> string \<Rightarrow> headers \<Rightarrow> js_error + ReadResourceResult" where
  "readTodoResource L fault d uri hs =
     try_catch
       (let user = extractUserInfo hs;
            todoId = replace_first ''todo://'' [] uri
        in case getTodoById L fault d todoId (uid user) of
             Inl e \<Rightarrow> Inl e
           | Inr None \<Rightarrow>
               Inl (Error (''TODO with ID '' @ dquote @ todoId @ dquote @ '' not found''))
           | Inr (Some todo) \<Rightarrow> Inr \<lparr> contents = [(uri, JSON_stringify L todo)] \<rparr>)
       (\<lambda>error. Inl (Error (''Error reading TODO resource: '' @ message L error)))"

text \<open>\<open>getCreateTodoPrompt\<close>: the four arguments are strings or left out.\<close>

record prompt_params =
  p_title :: "string option"
  p_description :: "string option"
  p_priority :: "string option"
  p_due_date :: "string option"

definition getCreateTodoPrompt :: "prompt_params \<Rightarrow> GetPromptResult" where
  "getCreateTodoPrompt params =
     \<lparr> messages =
         [(User,
           ''Please help me create a TODO item with the following details:'' @ nl @
           ''Title: '' @ or_else (p_title params) ''[Please provide a title]'' @ nl @
           ''Description: '' @ or_else (p_description params) ''[Optional description]'' @ nl @
           ''Priority: '' @ or_else (p_priority params) ''medium'' @ nl @
           ''Due Date: '' @ or_else (p_due_date params) ''[Optional due date]'' @ nl @ nl @
           ''Please provide any additional suggestions or improvements for this TODO item.'')] \<rparr>"

section \<open>Auxiliary notions for the statements\<close>

text \<open>No row is stamped later than the clock of the store reads.\<close>

definition clock_ahead :: "db \<Rightarrow> bool" where
  "clock_ahead d = list_all (\<lambda>r. updated_at r \<le> CURRENT_TIMESTAMP d) (todo_items d)"

text \<open>
  The stores the operations can produce from an empty table, with a clock that never
  goes back.
\<close>

inductive reachable :: "db \<Rightarrow> bool" where
  empty: "reachable \<lparr> todo_items = [], CURRENT_TIMESTAMP = t \<rparr>"
| tick: "reachable d \<Longrightarrow> CURRENT_TIMESTAMP d \<le> t \<Longrightarrow> reachable (d\<lparr>CURRENT_TIMESTAMP := t\<rparr>)"
| created: "reachable d \<Longrightarrow> createTodo L fault nid d todo user = Inr (item, d') \<Longrightarrow> reachable d'"
| updated: "reachable d \<Longrightarrow> updateTodo L fault d i updates u = Inr (found, d') \<Longrightarrow> reachable d'"
| deleted: "reachable d \<Longrightarrow> deleteTodo L fault d i u = Inr (success, d') \<Longrightarrow> reachable d'"

text \<open>The net effect of the \<open>SET\<close> clauses of \<open>updateTodo\<close> on one row, stamped \<open>t\<close>.\<close>

definition updated_row :: "platform \<Rightarrow> UpdateTodoRequest \<Rightarrow> int \<Rightarrow> TodoItem \<Rightarrow> TodoItem" where
  "updated_row L updates t r =
     r\<lparr> title := (case upd_title updates of None \<Rightarrow> title r | Some x \<Rightarrow> x),
        description := (case upd_description updates of None \<Rightarrow> description r | Some x \<Rightarrow> Some x),
        completed := (case upd_completed updates of None \<Rightarrow> completed r | Some x \<Rightarrow> x),
        priority := (case upd_priority updates of None \<Rightarrow> priority r | Some x \<Rightarrow> x),
        due_date := (case upd_due_date updates of None \<Rightarrow> due_date r
                     | Some s \<Rightarrow> if s = [] then None else Some (new_Date L s)),
        updated_at := t \<rparr>"

text \<open>
  A search text none of whose characters is a metacharacter of a \<open>LIKE\<close> pattern; and a
  text that does not begin in the middle of a character (no well-formed text does).
\<close>

definition like_plain :: "string \<Rightarrow> bool" where
  "like_plain s =
     list_all (\<lambda>c. c \<noteq> ''%'' \<and> c \<noteq> ''_'' \<and> c \<noteq> [CHR 0x5C]) (utf8_chars s)"

definition starts_character :: "string \<Rightarrow> bool" where
  "starts_character s = (case s of [] \<Rightarrow> True | c # rest \<Rightarrow> \<not> continuation c)"

text \<open>The characters of \<open>s\<close> occur in \<open>t\<close> as a contiguous run, case folded.\<close>

definition ci_substring :: "(string \<Rightarrow> string) \<Rightarrow> string \<Rightarrow> string \<Rightarrow> bool" where
  "ci_substring lc s t = sublist (map lc (utf8_chars s)) (map lc (utf8_chars t))"

text \<open>
  An item passes the filters for an owner: \<open>passes\<close> with the search as the store applies
  it, \<open>passes_substring\<close> with the search as a case-insensitive substring test on the
  title or the description. Neither looks at \<open>limit\<close> or \<open>offset\<close>.
\<close>

definition passes :: "platform \<Rightarrow> string \<Rightarrow> filters \<Rightarrow> TodoItem \<Rightarrow> bool" where
  "passes L u f r =
     (user_id r = u
      \<and> (case f_completed f of None \<Rightarrow> True | Some b \<Rightarrow> completed r = b)
      \<and> (case f_priority f of None \<Rightarrow> True | Some p \<Rightarrow> priority r = p)
      \<and> (case f_search f of
            None \<Rightarrow> True
          | Some s \<Rightarrow>
              s = [] \<or> ILIKE L (title r) (''%'' @ s @ ''%'')
              \<or> (case description r of
                    None \<Rightarrow> False
                  | Some x \<Rightarrow> ILIKE L x (''%'' @ s @ ''%''))))"

definition passes_substring :: "platform \<Rightarrow> string \<Rightarrow> filters \<Rightarrow> TodoItem \<Rightarrow> bool" where
  "passes_substring L u f r =
     (user_id r = u
      \<and> (case f_completed f of None \<Rightarrow> True | Some b \<Rightarrow> completed r = b)
      \<and> (case f_priority f of None \<Rightarrow> True | Some p \<Rightarrow> priority r = p)
      \<and> (case f_search f of
            None \<Rightarrow> True
          | Some s \<Rightarrow>
              ci_substring (lower L) s (title r)
              \<or> (case description r of
                    None \<Rightarrow> False
                  | Some x \<Rightarrow> ci_substring (lower L) s x)))"

text \<open>
  The filtered items, newest first, those of equal \<open>created_at\<close> by \<open>rank\<close>; and the
  items of the \<open>k\<close>-th window of size \<open>l\<close>, each window a query of its own with the
  engine's order for that query, \<open>ranks k\<close>.
\<close>

definition listing :: "platform \<Rightarrow> (TodoItem \<Rightarrow> nat) \<Rightarrow> db \<Rightarrow> string \<Rightarrow> filters \<Rightarrow> TodoItem list" where
  "listing L rank d u f =
     sort_key (\<lambda>r. - created_at r) (sort_key rank (filter (passes L u f) (todo_items d)))"

definition page ::
  "platform \<Rightarrow> (nat \<Rightarrow> TodoItem \<Rightarrow> nat) \<Rightarrow> db \<Rightarrow> string \<Rightarrow> filters \<Rightarrow> nat \<Rightarrow> nat \<Rightarrow> TodoItem list" where
  "page L ranks d u f l k =
     (case getAllTodos L None (ranks k) d u
             (f\<lparr>f_limit := Some (of_nat l), f_offset := Some (of_nat (k * l))\<rparr>) of
        Inl e \<Rightarrow> []
      | Inr (todos, totalCount) \<Rightarrow> todos)"

text \<open>The values of \<open>limit\<close> and \<open>offset\<close> the filter schema lets through: nothing, or a number in range.\<close>

definition limit_accepted :: "jsval \<Rightarrow> bool" where
  "limit_accepted v = (case v of JUndefined \<Rightarrow> True | JNum n \<Rightarrow> 1 \<le> n \<and> n \<le> 100 | _ \<Rightarrow> False)"

definition offset_accepted :: "jsval \<Rightarrow> bool" where
  "offset_accepted v = (case v of JUndefined \<Rightarrow> True | JNum n \<Rightarrow> 0 \<le> n | _ \<Rightarrow> False)"

text \<open>The error is a \<open>ZodError\<close> with an issue whose path is the field.\<close>

definition names_field :: "string \<Rightarrow> js_error \<Rightarrow> bool" where
  "names_field p e = (case e of ZodError is \<Rightarrow> list_ex (\<lambda>i. path i = [p]) is | Error m \<Rightarrow> False)"

text \<open>An argument of the prompt that was given (and is not the empty string); a text in square brackets.\<close>

definition supplied :: "string option \<Rightarrow> bool" where
  "supplied x = (case x of None \<Rightarrow> False | Some s \<Rightarrow> s \<noteq> [])"

definition bracketed :: "string \<Rightarrow> bool" where
  "bracketed s = (s \<noteq> [] \<and> hd s = CHR ''['' \<and> last s = CHR '']'')"

text \<open>The issues of a parse, none when it succeeded.\<close>

definition issues_of :: "zod_issue list + 'a \<Rightarrow> zod_issue list" where
  "issues_of r = (case r of Inl is \<Rightarrow> is | Inr x \<Rightarrow> [])"

text \<open>The text of the messages of the prompt.\<close>

definition prompt_text :: "prompt_params \<Rightarrow> string" where
  "prompt_text params = concat (map snd (messages (getCreateTodoPrompt params)))"

section \<open>Sample data\<close>

text \<open>A platform, items, stores and some arguments to run the definitions on.\<close>

text \<open>
  The platform's \<open>uuid_in\<close> is PostgreSQL's: an optional opening brace, sixteen bytes of
  two hexadecimal digits each, a hyphen allowed after every second byte but the last, the
  closing brace if there was an opening one, and nothing more. The value is printed in lower
  case, grouped 8-4-4-4-12. Its \<open>lower\<close> folds the letters of ASCII.
\<close>

definition xdigit :: "char \<Rightarrow> bool" where
  "xdigit c =
     (let n = of_char c :: nat
      in (48 \<le> n \<and> n \<le> 57) \<or> (65 \<le> n \<and> n \<le> 70) \<or> (97 \<le> n \<and> n \<le> 102))"

definition to_lower :: "char \<Rightarrow> char" where
  "to_lower c = (let n = of_char c :: nat in if 65 \<le> n \<and> n \<le> 90 then char_of (n + 32) else c)"

fun uuid_bytes :: "nat \<Rightarrow> string \<Rightarrow> (string \<times> string) option" where
  "uuid_bytes 0 src = Some ([], src)"
| "uuid_bytes (Suc n) src =
     (case src of
        a # b # rest \<Rightarrow>
          if xdigit a \<and> xdigit b then
            (let i = 15 - n;
                 rest' = (case rest of
                            [] \<Rightarrow> rest
                          | c # r \<Rightarrow> if c = CHR ''-'' \<and> odd i \<and> i < 15 then r else rest)
             in case uuid_bytes n rest' of
                  None \<Rightarrow> None
                | Some (ds, fin) \<Rightarrow> Some (to_lower a # to_lower b # ds, fin))
          else None
      | _ \<Rightarrow> None)"

definition uuid_out :: "string \<Rightarrow> string" where
  "uuid_out ds =
     take 8 ds @ ''-'' @ take 4 (drop 8 ds) @ ''-'' @ take 4 (drop 12 ds) @ ''-'' @
     take 4 (drop 16 ds) @ ''-'' @ drop 20 ds"

definition pg_uuid_in :: "string \<Rightarrow> string option" where
  "pg_uuid_in src =
     (let braces = (case src of [] \<Rightarrow> False | c # rest \<Rightarrow> c = CHR ''{'');
          body = (if braces then tl src else src)
      in case uuid_bytes 16 body of
           None \<Rightarrow> None
         | Some (ds, fin) \<Rightarrow>
             if fin = (if braces then ''}'' else []) then Some (uuid_out ds) else None)"

definition sample_platform :: platform where
  "sample_platform =
     \<lparr> toLocaleDateString = (\<lambda>t. ''1/1/2025''),
       JSON_stringify = (\<lambda>todo. ''{ id: '' @ todo_id todo @ '' }''),
       new_Date = (\<lambda>s. int (length s)),
       zod_datetime = (\<lambda>s. s \<noteq> []),
       zod_message = (\<lambda>is. ''invalid arguments''),
       completion_rate = (\<lambda>c t. (200 * c + t) div (2 * t)),
       lower = (\<lambda>c. case c of [b] \<Rightarrow> [to_lower b] | _ \<Rightarrow> c),
       uuid_in = pg_uuid_in \<rparr>"

definition abc_id :: string where
  "abc_id = ''a0eebc99-9c0b-4ef8-bb6d-6bb9bd380a11''"

definition xyz_id :: string where
  "xyz_id = ''b1ffcd00-1d2c-4fa9-8c7e-7cc0ce491b22''"

definition abc_todo :: TodoItem where
  "abc_todo =
     \<lparr> todo_id = abc_id, title = ''abc'', description = None, completed = False,
       priority = Medium, due_date = None, created_at = 10, updated_at = 10,
       user_id = ''alice'', user_email = ''alice@example.com'', user_name = ''Alice'' \<rparr>"

definition xyz_todo :: TodoItem where
  "xyz_todo = abc_todo\<lparr> todo_id := xyz_id, title := ''xyz'' \<rparr>"

definition sample_db :: db where
  "sample_db = \<lparr> todo_items = [abc_todo], CURRENT_TIMESTAMP = 20 \<rparr>"

text \<open>Two items created at the same instant, and two orders of them.\<close>

definition tied_db :: db where
  "tied_db = \<lparr> todo_items = [abc_todo, xyz_todo], CURRENT_TIMESTAMP = 20 \<rparr>"

definition abc_first :: "TodoItem \<Rightarrow> nat" where
  "abc_first r = (if todo_id r = abc_id then 0 else 1)"

definition xyz_first :: "TodoItem \<Rightarrow> nat" where
  "xyz_first r = (if todo_id r = xyz_id then 0 else 1)"

definition storage_order :: "TodoItem \<Rightarrow> nat" where
  "storage_order r = 0"

text \<open>An engine that returns tied rows in one order for the first query and in the other afterwards.\<close>

definition shifting_ranks :: "nat \<Rightarrow> TodoItem \<Rightarrow> nat" where
  "shifting_ranks k = (if k = 0 then abc_first else xyz_first)"

definition no_updates :: UpdateTodoRequest where
  "no_updates =
     \<lparr> upd_title = None, upd_description = None, upd_completed = None,
       upd_priority = None, upd_due_date = None \<rparr>"

definition a_c_search :: filters where
  "a_c_search =
     \<lparr> f_completed = None, f_priority = None, f_search = Some ''a_c'',
       f_limit = Some 50, f_offset = Some 0 \<rparr>"

definition b_search :: filters where
  "b_search =
     \<lparr> f_completed = Some False, f_priority = Some Medium, f_search = Some ''B'',
       f_limit = Some 1, f_offset = Some 0 \<rparr>"

definition no_filter :: filters where
  "no_filter =
     \<lparr> f_completed = None, f_priority = None, f_search = None,
       f_limit = Some 50, f_offset = Some 0 \<rparr>"

definition id_params :: "string \<Rightarrow> jsval" where
  "id_params i = JObj (\<lambda>k. if k = ''id'' then JStr i else JUndefined)"

definition alice_headers :: headers where
  "alice_headers = (\<lambda>k. if k = ''x-forwarded-user'' then Some ''alice'' else None)"

definition no_params :: jsval where
  "no_params = JObj (\<lambda>k. JUndefined)"

definition half_limit :: jsval where
  "half_limit = JObj (\<lambda>k. if k = ''limit'' then JNum (3 / 2) else JUndefined)"

definition no_prompt_params :: prompt_params where
  "no_prompt_params = \<lparr> p_title = None, p_description = None, p_priority = None, p_due_date = None \<rparr>"

definition limit_params :: "jsval \<Rightarrow> jsval" where
  "limit_params v = JObj (\<lambda>k. if k = ''limit'' then v else JUndefined)"

section \<open>Properties of the store\<close>

lemma mapRowToTodoItem_ident [simp]: "mapRowToTodoItem row = row"
  by (cases "due_date row") (simp_all add: mapRowToTodoItem_def)

lemma filter_owned_none:
  assumes "\<forall>r\<in>set rs. uuid_in L i = Some (todo_id r) \<longrightarrow> user_id r \<noteq> u"
  shows "filter (owned_row L i u) rs = []"
  using assms by (auto simp: filter_empty_conv owned_row_def)

lemma map_owned_none:
  assumes "\<forall>r\<in>set rs. uuid_in L i = Some (todo_id r) \<longrightarrow> user_id r \<noteq> u"
  shows "map (\<lambda>r. if owned_row L i u r then g r else r) rs = rs"
  using assms by (induction rs) (auto simp: owned_row_def)

lemma filter_not_owned_none:
  assumes "\<forall>r\<in>set rs. uuid_in L i = Some (todo_id r) \<longrightarrow> user_id r \<noteq> u"
  shows "filter (\<lambda>r. \<not> owned_row L i u r) rs = rs"
  using assms by (induction rs) (auto simp: owned_row_def)

lemma getTodoById_unowned:
  assumes "uuid_in L i = Some c"
      and "\<forall>r\<in>set (todo_items d). uuid_in L i = Some (todo_id r) \<longrightarrow> user_id r \<noteq> u"
  shows "getTodoById L fault d i u = connect fault (Inr None)"
  by (simp add: getTodoById_def assms(1) filter_owned_none [OF assms(2)])

lemma updateTodo_unowned:
  assumes "uuid_in L i = Some c"
      and "\<forall>r\<in>set (todo_items d). uuid_in L i = Some (todo_id r) \<longrightarrow> user_id r \<noteq> u"
  shows "updateTodo L fault d i updates u = connect fault (Inr (None, d))"
  by (cases fault)
     (simp_all add: updateTodo_def getTodoById_def connect_def Let_def assms(1)
        filter_owned_none [OF assms(2)] map_owned_none [OF assms(2)])

lemma deleteTodo_unowned:
  assumes "uuid_in L i = Some c"
      and "\<forall>r\<in>set (todo_items d). uuid_in L i = Some (todo_id r) \<longrightarrow> user_id r \<noteq> u"
  shows "deleteTodo L fault d i u = connect fault (Inr (False, d))"
  by (simp add: deleteTodo_def Let_def assms(1)
        filter_owned_none [OF assms(2)] filter_not_owned_none [OF assms(2)])

lemma malformed_id_throws:
  assumes "uuid_in L k = None"
  shows "getTodoById L fault d k u = connect fault (Inl (invalid_uuid k))"
    and "updateTodo L fault d k updates u = connect fault (Inl (invalid_uuid k))"
    and "deleteTodo L fault d k u = connect fault (Inl (invalid_uuid k))"
  using assms
  by (cases fault; simp add: getTodoById_def updateTodo_def deleteTodo_def connect_def Let_def)+

lemma sample_uuids [simp]:
  "uuid_in sample_platform abc_id = Some abc_id"
  "uuid_in sample_platform xyz_id = Some xyz_id"
  "uuid_in sample_platform ''A0EEBC99-9C0B-4EF8-BB6D-6BB9BD380A11'' = Some abc_id"
  "uuid_in sample_platform ''todo-id-here'' = None"
  by code_simp+

lemma sample_ids_differ [simp]: "abc_id \<noteq> xyz_id" "xyz_id \<noteq> abc_id"
  by (simp_all add: abc_id_def xyz_id_def)

subsection \<open>Somebody else's id and a missing id\<close>

text \<open>What \<open>getTodoById\<close> returns to a caller depends on the rows of that caller only.\<close>

lemma owner_rows_only:
  assumes "filter (\<lambda>r. user_id r = u) (todo_items d2) = filter (\<lambda>r. user_id r = u) (todo_items d)"
  shows "getTodoById L fault d2 i u = getTodoById L fault d i u"
proof -
  have split: "filter (owned_row L i u) rs
      = filter (\<lambda>r. uuid_in L i = Some (todo_id r)) (filter (\<lambda>r. user_id r = u) rs)" for rs
    unfolding filter_filter by (rule filter_cong) (auto simp: owned_row_def)
  have "filter (owned_row L i u) (todo_items d2)
      = filter (\<lambda>r. uuid_in L i = Some (todo_id r)) (filter (\<lambda>r. user_id r = u) (todo_items d2))"
    by (rule split)
  also have "\<dots> = filter (\<lambda>r. uuid_in L i = Some (todo_id r))
                      (filter (\<lambda>r. user_id r = u) (todo_items d))"
    by (simp only: assms)
  also have "\<dots> = filter (owned_row L i u) (todo_items d)"
    by (rule split [symmetric])
  finally show ?thesis by (simp add: getTodoById_def)
qed

text \<open>
  Claim C1, amended. Let \<open>i\<close> and \<open>j\<close> be texts the engine reads as \<open>UUID\<close>s, the
  first the id of no row of the caller \<open>u\<close> (it may well be the id of a row that belongs
  to another identity), the second the id of no row at all. Then \<open>getTodoById\<close>,
  \<open>updateTodo\<close> and \<open>deleteTodo\<close> give the same result for \<open>i\<close> as for \<open>j\<close>,
  whatever the engine's verdict; when the statements run, that result is absent, absent and
  false, and the store is left as it was. A text \<open>k\<close> that is not a \<open>UUID\<close> makes the
  three throw the engine's syntax error, whoever calls and whatever the store holds.
\<close>

theorem foreign_id_like_missing_id:
  assumes id_i: "uuid_in L i = Some ci"
      and foreign: "\<forall>r\<in>set (todo_items d). todo_id r = ci \<longrightarrow> user_id r \<noteq> u"
      and id_j: "uuid_in L j = Some cj"
      and missing: "\<forall>r\<in>set (todo_items d). todo_id r \<noteq> cj"
  shows "getTodoById L fault d i u = getTodoById L fault d j u
       \<and> updateTodo L fault d i updates u = updateTodo L fault d j updates u
       \<and> deleteTodo L fault d i u = deleteTodo L fault d j u
       \<and> getTodoById L None d i u = Inr None
       \<and> updateTodo L None d i updates u = Inr (None, d)
       \<and> deleteTodo L None d i u = Inr (False, d)
       \<and> (uuid_in L k = None \<longrightarrow>
            getTodoById L None d k u = Inl (invalid_uuid k)
          \<and> updateTodo L None d k updates u = Inl (invalid_uuid k)
          \<and> deleteTodo L None d k u = Inl (invalid_uuid k))"
proof -
  from id_i foreign
  have fi: "\<forall>r\<in>set (todo_items d). uuid_in L i = Some (todo_id r) \<longrightarrow> user_id r \<noteq> u"
    by auto
  from id_j missing
  have fj: "\<forall>r\<in>set (todo_items d). uuid_in L j = Some (todo_id r) \<longrightarrow> user_id r \<noteq> u"
    by auto
  have same: "getTodoById L fault d i u = getTodoById L fault d j u
       \<and> updateTodo L fault d i updates u = updateTodo L fault d j updates u
       \<and> deleteTodo L fault d i u = deleteTodo L fault d j u
       \<and> getTodoById L None d i u = Inr None
       \<and> updateTodo L None d i updates u = Inr (None, d)
       \<and> deleteTodo L None d i u = Inr (False, d)"
    by (simp add: getTodoById_unowned [OF id_i fi] getTodoById_unowned [OF id_j fj]
          updateTodo_unowned [OF id_i fi] updateTodo_unowned [OF id_j fj]
          deleteTodo_unowned [OF id_i fi] deleteTodo_unowned [OF id_j fj] connect_def)
  have bad: "uuid_in L k = None \<longrightarrow>
            getTodoById L None d k u = Inl (invalid_uuid k)
          \<and> updateTodo L None d k updates u = Inl (invalid_uuid k)
          \<and> deleteTodo L None d k u = Inl (invalid_uuid k)"
    by (simp add: malformed_id_throws connect_def)
  from same bad show ?thesis by blast
qed

theorem foreign_id_like_missing_id_witness:
  "getTodoById sample_platform None sample_db abc_id ''bob'' = Inr None
   \<and> getTodoById sample_platform None sample_db abc_id ''bob''
       = getTodoById sample_platform None sample_db xyz_id ''bob''
   \<and> updateTodo sample_platform None sample_db abc_id (no_updates\<lparr>upd_title := Some ''x''\<rparr>) ''bob''
       = Inr (None, sample_db)
   \<and> deleteTodo sample_platform None sample_db abc_id ''bob'' = Inr (False, sample_db)
   \<and> deleteTodo sample_platform None sample_db ''todo-id-here'' ''bob''
       = Inl (invalid_uuid ''todo-id-here'')
   \<and> getTodoById sample_platform None sample_db abc_id ''alice'' = Inr (Some abc_todo)
   \<and> getTodoById sample_platform None sample_db ''A0EEBC99-9C0B-4EF8-BB6D-6BB9BD380A11'' ''alice''
       = Inr (Some abc_todo)"
proof -
  have f: "\<forall>r\<in>set (todo_items sample_db). todo_id r = abc_id \<longrightarrow> user_id r \<noteq> ''bob''"
    by (simp add: sample_db_def abc_todo_def)
  have m: "\<forall>r\<in>set (todo_items sample_db). todo_id r \<noteq> xyz_id"
    by (simp add: sample_db_def abc_todo_def)
  have own: "getTodoById sample_platform None sample_db abc_id ''alice'' = Inr (Some abc_todo)"
    "getTodoById sample_platform None sample_db ''A0EEBC99-9C0B-4EF8-BB6D-6BB9BD380A11'' ''alice''
       = Inr (Some abc_todo)"
    by (simp_all add: getTodoById_def connect_def sample_db_def abc_todo_def owned_row_def)
  from foreign_id_like_missing_id
         [OF sample_uuids(1) f sample_uuids(2) m, where k = "''todo-id-here''" and fault = None
            and updates = "no_updates\<lparr>upd_title := Some ''x''\<rparr>"] own sample_uuids(4)
  show ?thesis by metis
qed

text \<open>
  Claim C1 as stated fails: for the caller \<open>bob\<close> the id of the item of \<open>alice\<close> gives
  absent and false, while \<open>todo-id-here\<close>, an id that exists nowhere, makes
  \<open>getTodoById\<close> and \<open>deleteTodo\<close> throw.
\<close>

theorem malformed_missing_id_counterexample:
  "getTodoById sample_platform None sample_db abc_id ''bob'' = Inr None
   \<and> getTodoById sample_platform None sample_db ''todo-id-here'' ''bob''
       = Inl (Error (''invalid input syntax for type uuid: '' @ dquote @ ''todo-id-here'' @ dquote))
   \<and> deleteTodo sample_platform None sample_db abc_id ''bob'' = Inr (False, sample_db)
   \<and> deleteTodo sample_platform None sample_db ''todo-id-here'' ''bob''
       = Inl (Error (''invalid input syntax for type uuid: '' @ dquote @ ''todo-id-here'' @ dquote))
   \<and> map todo_id (todo_items sample_db) = [abc_id]
   \<and> map user_id (todo_items sample_db) = [''alice'']"
  by (simp add: getTodoById_def deleteTodo_def connect_def sample_db_def abc_todo_def
        owned_row_def invalid_uuid_def dquote_def)

subsection \<open>Updates\<close>

lemma apply_set_fields:
  "apply_set (setClauses L updates @ [\<lambda>r. r\<lparr>updated_at := t\<rparr>]) r = updated_row L updates t r"
  by (simp add: apply_set_def setClauses_def updated_row_def split: option.splits)

lemma setClauses_empty_iff: "setClauses L updates = [] \<longleftrightarrow> updates = no_updates"
  by (cases updates) (auto simp: setClauses_def no_updates_def split: option.splits)

lemma updated_row_keeps_owner [simp]:
  "owned_row L i u (updated_row L updates t r) = owned_row L i u r"
  by (simp add: owned_row_def updated_row_def)

lemma filter_owned_map_update:
  "filter (owned_row L i u) (map (\<lambda>r. if owned_row L i u r then updated_row L updates t r else r) rs)
     = map (updated_row L updates t) (filter (owned_row L i u) rs)"
  by (induction rs) auto

lemma filter_others_map_update:
  "filter (\<lambda>r. \<not> owned_row L i u r)
      (map (\<lambda>r. if owned_row L i u r then updated_row L updates t r else r) rs)
     = filter (\<lambda>r. \<not> owned_row L i u r) rs"
  by (induction rs) auto

lemma updateTodo_no_updates:
  "updateTodo L fault d i no_updates u =
     (case getTodoById L fault d i u of Inl e \<Rightarrow> Inl e | Inr found \<Rightarrow> Inr (found, d))"
  by (cases fault) (simp_all add: updateTodo_def setClauses_def no_updates_def connect_def getTodoById_def)

lemma filter_owned_uuid:
  assumes "filter (owned_row L i u) rs = x # xs"
  shows "uuid_in L i = Some (todo_id x)"
proof -
  from assms have "x \<in> set (filter (owned_row L i u) rs)" by simp
  then show ?thesis by (simp add: owned_row_def)
qed

lemma getTodoById_Some:
  "getTodoById L None d i u = Inr (Some old) \<longleftrightarrow>
     (\<exists>rest. filter (owned_row L i u) (todo_items d) = old # rest)"
  by (auto simp: getTodoById_def connect_def filter_owned_uuid split: list.splits)

lemma updateTodo_some_updates:
  assumes found: "getTodoById L None d i u = Inr (Some old)"
      and some: "updates \<noteq> no_updates"
  shows "updateTodo L None d i updates u =
           Inr (Some (updated_row L updates (CURRENT_TIMESTAMP d) old),
                d\<lparr>todo_items :=
                    map (\<lambda>r. if owned_row L i u r
                             then updated_row L updates (CURRENT_TIMESTAMP d) r else r)
                      (todo_items d)\<rparr>)"
proof -
  from found obtain rest where "filter (owned_row L i u) (todo_items d) = old # rest"
    by (auto simp: getTodoById_Some)
  moreover from this have "uuid_in L i = Some (todo_id old)"
    by (rule filter_owned_uuid)
  moreover from some have "setClauses L updates \<noteq> []"
    by (simp add: setClauses_empty_iff)
  ultimately show ?thesis
    by (simp add: updateTodo_def connect_def Let_def apply_set_fields)
qed

lemma old_not_after_clock:
  assumes "getTodoById L None d i u = Inr (Some old)" and "clock_ahead d"
  shows "updated_at old \<le> CURRENT_TIMESTAMP d"
proof -
  from assms(1) obtain rest where "filter (owned_row L i u) (todo_items d) = old # rest"
    by (auto simp: getTodoById_Some)
  then have "old \<in> set (filter (owned_row L i u) (todo_items d))" by simp
  then have "old \<in> set (todo_items d)" by simp
  with assms(2) show ?thesis by (simp add: clock_ahead_def list_all_iff)
qed

text \<open>
  Claim C3. \<open>updateTodo\<close> with no field present is \<open>getTodoById\<close>: it returns what a read
  returns and leaves the store, \<open>updated_at\<close> included, as it was. With at least one field
  present, on an item of the caller in a store no row of which is stamped later than the
  clock, it returns the item with \<open>updated_at\<close> set to the current time, which is not
  before the prior value; the fields that are absent from the update keep their values, as do
  the id, the creation time and the owner; a read afterwards returns that item, and the rows
  of others are untouched.
\<close>

theorem updateTodo_read_or_stamp:
  "updateTodo L fault d i no_updates u =
       (case getTodoById L fault d i u of Inl e \<Rightarrow> Inl e | Inr found \<Rightarrow> Inr (found, d))
   \<and> (getTodoById L None d i u = Inr (Some old) \<and> updates \<noteq> no_updates \<and> clock_ahead d \<longrightarrow>
        (\<exists>new d'. updateTodo L None d i updates u = Inr (Some new, d')
           \<and> updated_at new = CURRENT_TIMESTAMP d
           \<and> updated_at old \<le> updated_at new
           \<and> (upd_title updates = None \<longrightarrow> title new = title old)
           \<and> (upd_description updates = None \<longrightarrow> description new = description old)
           \<and> (upd_completed updates = None \<longrightarrow> completed new = completed old)
           \<and> (upd_priority updates = None \<longrightarrow> priority new = priority old)
           \<and> (upd_due_date updates = None \<longrightarrow> due_date new = due_date old)
           \<and> todo_id new = todo_id old \<and> created_at new = created_at old
           \<and> user_id new = user_id old \<and> user_email new = user_email old
           \<and> user_name new = user_name old
           \<and> getTodoById L None d' i u = Inr (Some new)
           \<and> filter (\<lambda>r. \<not> owned_row L i u r) (todo_items d')
               = filter (\<lambda>r. \<not> owned_row L i u r) (todo_items d)
           \<and> CURRENT_TIMESTAMP d' = CURRENT_TIMESTAMP d))"
proof (intro conjI impI)
  show "updateTodo L fault d i no_updates u =
       (case getTodoById L fault d i u of Inl e \<Rightarrow> Inl e | Inr found \<Rightarrow> Inr (found, d))"
    by (rule updateTodo_no_updates)
next
  assume a: "getTodoById L None d i u = Inr (Some old) \<and> updates \<noteq> no_updates \<and> clock_ahead d"
  let ?new = "updated_row L updates (CURRENT_TIMESTAMP d) old"
  let ?d' = "d\<lparr>todo_items :=
                    map (\<lambda>r. if owned_row L i u r
                             then updated_row L updates (CURRENT_TIMESTAMP d) r else r)
                      (todo_items d)\<rparr>"
  from a have run: "updateTodo L None d i updates u = Inr (Some ?new, ?d')"
    by (simp add: updateTodo_some_updates)
  from a have le: "updated_at old \<le> CURRENT_TIMESTAMP d"
    by (blast intro: old_not_after_clock)
  from a obtain rest where "filter (owned_row L i u) (todo_items d) = old # rest"
    by (auto simp: getTodoById_Some)
  then have reread: "getTodoById L None ?d' i u = Inr (Some ?new)"
    by (simp add: getTodoById_def connect_def filter_owned_map_update filter_owned_uuid)
  have others: "filter (\<lambda>r. \<not> owned_row L i u r) (todo_items ?d')
               = filter (\<lambda>r. \<not> owned_row L i u r) (todo_items d)"
    by (simp add: filter_others_map_update)
  have fields: "updated_at ?new = CURRENT_TIMESTAMP d"
    "upd_title updates = None \<longrightarrow> title ?new = title old"
    "upd_description updates = None \<longrightarrow> description ?new = description old"
    "upd_completed updates = None \<longrightarrow> completed ?new = completed old"
    "upd_priority updates = None \<longrightarrow> priority ?new = priority old"
    "upd_due_date updates = None \<longrightarrow> due_date ?new = due_date old"
    "todo_id ?new = todo_id old" "created_at ?new = created_at old"
    "user_id ?new = user_id old" "user_email ?new = user_email old"
    "user_name ?new = user_name old"
    by (simp_all add: updated_row_def)
  show "\<exists>new d'. updateTodo L None d i updates u = Inr (Some new, d')
           \<and> updated_at new = CURRENT_TIMESTAMP d
           \<and> updated_at old \<le> updated_at new
           \<and> (upd_title updates = None \<longrightarrow> title new = title old)
           \<and> (upd_description updates = None \<longrightarrow> description new = description old)
           \<and> (upd_completed updates = None \<longrightarrow> completed new = completed old)
           \<and> (upd_priority updates = None \<longrightarrow> priority new = priority old)
           \<and> (upd_due_date updates = None \<longrightarrow> due_date new = due_date old)
           \<and> todo_id new = todo_id old \<and> created_at new = created_at old
           \<and> user_id new = user_id old \<and> user_email new = user_email old
           \<and> user_name new = user_name old
           \<and> getTodoById L None d' i u = Inr (Some new)
           \<and> filter (\<lambda>r. \<not> owned_row L i u r) (todo_items d')
               = filter (\<lambda>r. \<not> owned_row L i u r) (todo_items d)
           \<and> CURRENT_TIMESTAMP d' = CURRENT_TIMESTAMP d"
    apply (rule exI [of _ ?new])
    apply (rule exI [of _ ?d'])
    using run le reread others fields by simp
qed

text \<open>
  The store operations keep every stamp at or before the clock, and so does a clock
  that only advances.
\<close>

lemma clock_ahead_createTodo:
  assumes "clock_ahead d" and "createTodo L fault nid d todo user = Inr (item, d')"
  shows "clock_ahead d'"
  using assms
  by (cases fault) (auto simp: createTodo_def connect_def clock_ahead_def Let_def split: if_splits)

lemma clock_ahead_updateTodo:
  assumes "clock_ahead d" and "updateTodo L fault d i updates u = Inr (res, d')"
  shows "clock_ahead d'"
proof (cases fault)
  case (Some m)
  with assms(2) show ?thesis by (simp add: updateTodo_def connect_def)
next
  case None
  show ?thesis
  proof (cases "updates = no_updates")
    case True
    with assms(2) have "d' = d"
      by (auto simp: updateTodo_no_updates split: sum.splits)
    with assms(1) show ?thesis by simp
  next
    case False
    then have ne: "setClauses L updates \<noteq> []" by (simp add: setClauses_empty_iff)
    from assms(2) None ne
    have d': "d' = d\<lparr>todo_items :=
                    map (\<lambda>r. if owned_row L i u r
                             then updated_row L updates (CURRENT_TIMESTAMP d) r else r)
                      (todo_items d)\<rparr>"
      by (auto simp: updateTodo_def connect_def Let_def apply_set_fields
               split: list.splits if_splits)
    from assms(1) show ?thesis
      unfolding d' by (auto simp: clock_ahead_def list_all_iff updated_row_def)
  qed
qed

lemma clock_ahead_deleteTodo:
  assumes "clock_ahead d" and "deleteTodo L fault d i u = Inr (res, d')"
  shows "clock_ahead d'"
  using assms
  by (cases fault)
     (auto simp: deleteTodo_def connect_def clock_ahead_def Let_def list_all_iff split: if_splits)

lemma clock_ahead_advance:
  assumes "clock_ahead d" and "CURRENT_TIMESTAMP d \<le> t"
  shows "clock_ahead (d\<lparr>CURRENT_TIMESTAMP := t\<rparr>)"
  using assms by (auto simp: clock_ahead_def list_all_iff)

lemma reachable_clock_ahead: "reachable d \<Longrightarrow> clock_ahead d"
proof (induction rule: reachable.induct)
  case (empty t)
  show ?case by (simp add: clock_ahead_def)
next
  case (tick d t)
  then show ?case by (simp add: clock_ahead_advance)
next
  case (created d L fault nid todo user item d')
  then show ?case by (blast intro: clock_ahead_createTodo)
next
  case (updated d L fault i updates u found d')
  then show ?case by (blast intro: clock_ahead_updateTodo)
next
  case (deleted d L fault i u success d')
  then show ?case by (blast intro: clock_ahead_deleteTodo)
qed

theorem updateTodo_read_or_stamp_witness:
  "updateTodo sample_platform None sample_db abc_id no_updates ''alice'' = Inr (Some abc_todo, sample_db)
   \<and> (\<exists>new d'. updateTodo sample_platform None sample_db abc_id
                  (no_updates\<lparr>upd_completed := Some True\<rparr>) ''alice'' = Inr (Some new, d')
         \<and> updated_at new = 20 \<and> updated_at abc_todo = 10 \<and> title new = ''abc''
         \<and> getTodoById sample_platform None d' abc_id ''alice'' = Inr (Some new))"
proof -
  have found: "getTodoById sample_platform None sample_db abc_id ''alice'' = Inr (Some abc_todo)"
    by (simp add: getTodoById_def connect_def sample_db_def abc_todo_def owned_row_def)
  have some: "no_updates\<lparr>upd_completed := Some True\<rparr> \<noteq> no_updates"
    by (simp add: no_updates_def)
  have ahead: "clock_ahead sample_db"
    by (simp add: clock_ahead_def sample_db_def abc_todo_def)
  have t: "title abc_todo = ''abc''" "updated_at abc_todo = 10" "CURRENT_TIMESTAMP sample_db = 20"
    "upd_title (no_updates\<lparr>upd_completed := Some True\<rparr>) = None"
    by (simp_all add: abc_todo_def sample_db_def no_updates_def)
  from updateTodo_read_or_stamp
         [of sample_platform None sample_db abc_id "''alice''" abc_todo
             "no_updates\<lparr>upd_completed := Some True\<rparr>"]
       found some ahead t
  show ?thesis by auto
qed


subsection \<open>Statistics\<close>

text \<open>
  Claim C5. \<open>getTodoStats\<close> returns whenever the statements run, and every result it
  returns has \<open>total = completed + pending\<close> and \<open>overdue \<le> pending\<close>, where
  \<open>overdue\<close> is the number of the owner's incomplete rows whose due date is strictly before
  the current time. The rows without a due date do not count: the store without them has
  the same \<open>overdue\<close>, whatever the clock reads.
\<close>

theorem getTodoStats_counts:
  "(\<exists>s. getTodoStats None d u = Inr s)
   \<and> (getTodoStats fault d u = Inr s \<longrightarrow>
        total s = n_completed s + pending s
      \<and> overdue s \<le> pending s
      \<and> overdue s = length (filter (\<lambda>r. user_id r = u \<and> \<not> completed r \<and>
                        (case due_date r of None \<Rightarrow> False | Some t \<Rightarrow> t < CURRENT_TIMESTAMP d))
                      (todo_items d))
      \<and> (\<exists>s'. getTodoStats fault
                 (d\<lparr>todo_items := filter (\<lambda>r. due_date r \<noteq> None) (todo_items d)\<rparr>) u = Inr s'
              \<and> overdue s' = overdue s))"
proof (intro conjI impI)
  show "\<exists>s. getTodoStats None d u = Inr s"
    by (simp add: getTodoStats_def connect_def Let_def)
next
  assume a: "getTodoStats fault d u = Inr s"
  then have f: "fault = None" by (cases fault) (simp_all add: getTodoStats_def connect_def)
  let ?mine = "filter (\<lambda>r. user_id r = u) (todo_items d)"
  from a f have s: "total s = length ?mine"
      "n_completed s = length (filter (\<lambda>r. completed r) ?mine)"
      "pending s = length (filter (\<lambda>r. \<not> completed r) ?mine)"
      "overdue s = length (filter (\<lambda>r. \<not> completed r \<and>
                        (case due_date r of None \<Rightarrow> False | Some t \<Rightarrow> t < CURRENT_TIMESTAMP d)) ?mine)"
    by (auto simp: getTodoStats_def connect_def Let_def)
  show "total s = n_completed s + pending s"
    unfolding s by (rule sum_length_filter_compl [symmetric])
  show "overdue s \<le> pending s"
  proof -
    have "filter (\<lambda>r. \<not> completed r \<and>
             (case due_date r of None \<Rightarrow> False | Some t \<Rightarrow> t < CURRENT_TIMESTAMP d)) ?mine
        = filter (\<lambda>r. case due_date r of None \<Rightarrow> False | Some t \<Rightarrow> t < CURRENT_TIMESTAMP d)
            (filter (\<lambda>r. \<not> completed r) ?mine)"
      unfolding filter_filter by (rule filter_cong) auto
    then show ?thesis unfolding s by (metis length_filter_le)
  qed
  show "overdue s = length (filter (\<lambda>r. user_id r = u \<and> \<not> completed r \<and>
                        (case due_date r of None \<Rightarrow> False | Some t \<Rightarrow> t < CURRENT_TIMESTAMP d))
                      (todo_items d))"
    unfolding s filter_filter by (rule arg_cong [where f = length], rule filter_cong) auto
  show "\<exists>s'. getTodoStats fault
                 (d\<lparr>todo_items := filter (\<lambda>r. due_date r \<noteq> None) (todo_items d)\<rparr>) u = Inr s'
              \<and> overdue s' = overdue s"
    unfolding s f
    by (auto simp: getTodoStats_def connect_def Let_def intro!: arg_cong [where f = length]
          filter_cong split: option.splits)
qed

theorem getTodoStats_counts_witness:
  "getTodoStats None sample_db ''alice'' =
      Inr \<lparr> total = 1, n_completed = 0, pending = 1, overdue = 0 \<rparr>
   \<and> total \<lparr> total = 1, n_completed = 0, pending = 1, overdue = 0 \<rparr>
       = n_completed \<lparr> total = 1, n_completed = 0, pending = 1, overdue = 0 \<rparr>
         + pending \<lparr> total = 1, n_completed = 0, pending = 1, overdue = 0 \<rparr>"
proof -
  have run: "getTodoStats None sample_db ''alice'' =
      Inr \<lparr> total = 1, n_completed = 0, pending = 1, overdue = 0 \<rparr>"
    by (simp add: getTodoStats_def connect_def sample_db_def abc_todo_def)
  from getTodoStats_counts [of sample_db "''alice''" None
         "\<lparr> total = 1, n_completed = 0, pending = 1, overdue = 0 \<rparr>"] run
  show ?thesis by blast
qed

subsection \<open>Listing\<close>

lemma not_continuation_percent [simp]: "\<not> continuation CHR ''%''"
  by (simp add: continuation_def)

lemma takeWhile_continuation_snoc:
  "\<not> continuation x \<Longrightarrow> takeWhile continuation (s @ [x]) = takeWhile continuation s"
  by (induction s) simp_all

lemma dropWhile_continuation_snoc:
  "\<not> continuation x \<Longrightarrow> dropWhile continuation (s @ [x]) = dropWhile continuation s @ [x]"
  by (induction s) simp_all

lemma utf8_chars_snoc_percent: "utf8_chars (s @ ''%'') = utf8_chars s @ [''%'']"
  by (induction s rule: utf8_chars.induct)
     (simp_all add: takeWhile_continuation_snoc dropWhile_continuation_snoc)

lemma utf8_chars_percent_Cons:
  assumes "starts_character s"
  shows "utf8_chars (CHR ''%'' # s) = ''%'' # utf8_chars s"
  using assms by (cases s) (simp_all add: starts_character_def)

lemma utf8_chars_pattern:
  assumes "starts_character s"
  shows "utf8_chars (''%'' @ s @ ''%'') = ''%'' # utf8_chars s @ [''%'']"
proof -
  from assms have "starts_character (s @ ''%'')"
    by (cases s) (simp_all add: starts_character_def)
  then have "utf8_chars (CHR ''%'' # s @ ''%'') = ''%'' # utf8_chars (s @ ''%'')"
    by (rule utf8_chars_percent_Cons)
  then show ?thesis by (simp add: utf8_chars_snoc_percent)
qed

lemma like_match_percent [simp]: "like_match lc [''%''] t"
  by (induction t) simp_all

lemma like_match_plain_prefix:
  assumes "list_all (\<lambda>c. c \<noteq> ''%'' \<and> c \<noteq> ''_'' \<and> c \<noteq> [CHR 0x5C]) ps"
  shows "like_match lc (ps @ [''%'']) t = prefix (map lc ps) (map lc t)"
  using assms
proof (induction ps arbitrary: t)
  case Nil
  then show ?case by simp
next
  case (Cons a ps)
  then have plain: "list_all (\<lambda>c. c \<noteq> ''%'' \<and> c \<noteq> ''_'' \<and> c \<noteq> [CHR 0x5C]) ps"
    and a: "a \<noteq> ''%''" "a \<noteq> ''_''" "a \<noteq> [CHR 0x5C]"
    by simp_all
  show ?case
  proof (cases t)
    case Nil
    with a show ?thesis by simp
  next
    case (Cons c t')
    with a Cons.IH [OF plain, of t'] show ?thesis by auto
  qed
qed

lemma like_match_plain_sublist:
  assumes "list_all (\<lambda>c. c \<noteq> ''%'' \<and> c \<noteq> ''_'' \<and> c \<noteq> [CHR 0x5C]) ps"
  shows "like_match lc (''%'' # ps @ [''%'']) t = sublist (map lc ps) (map lc t)"
proof (induction t)
  case Nil
  from like_match_plain_prefix [OF assms, of lc "[]"] show ?case by simp
next
  case (Cons c t)
  from like_match_plain_prefix [OF assms, of lc "c # t"] Cons show ?case
    by (simp add: sublist_Cons_right)
qed

lemma ILIKE_plain:
  assumes "like_plain s" and "starts_character s"
  shows "ILIKE L x (CHR ''%'' # s @ ''%'') = ci_substring (lower L) s x"
proof -
  from utf8_chars_pattern [OF assms(2)]
  have "utf8_chars (CHR ''%'' # s @ ''%'') = ''%'' # utf8_chars s @ [''%'']" by simp
  with assms(1) show ?thesis
    by (simp only: ILIKE_def ci_substring_def like_plain_def like_match_plain_sublist)
qed

lemma whereConditions_passes:
  "list_all (\<lambda>c. c r) (whereConditions L u f) = passes L u f r"
  by (auto simp: whereConditions_def passes_def split: option.splits)

lemma passes_plain:
  assumes "f_search f = Some s" and "like_plain s" and "starts_character s"
  shows "passes L u f r = passes_substring L u f r"
proof -
  have "s = [] \<Longrightarrow> ci_substring (lower L) s (title r)"
    by (simp add: ci_substring_def)
  with assms(1) show ?thesis
    by (auto simp: passes_def passes_substring_def ILIKE_plain [OF assms(2,3)]
             split: option.splits)
qed

lemma sorted_listing: "sorted_wrt (\<lambda>a b. created_at b \<le> created_at a) (listing L rank d u f)"
proof -
  have "sorted (map (\<lambda>r. - created_at r) (listing L rank d u f))"
    unfolding listing_def by (rule sorted_sort_key)
  then show ?thesis by (simp add: sorted_map)
qed

lemma sorted_wrt_window:
  assumes "sorted_wrt R xs"
  shows "sorted_wrt R (take l (drop off xs))"
proof -
  from assms have "sorted_wrt R (drop off xs)"
    by (metis append_take_drop_id sorted_wrt_append)
  then show ?thesis
    by (metis append_take_drop_id sorted_wrt_append)
qed

lemma bigint_in_of_nat:
  assumes "n < 2 ^ 63"
  shows "bigint_in (of_nat n) = Inr (int n)"
proof -
  have int_n: "is_integer (of_nat n)" by (simp add: is_integer_def)
  from assms have "(of_nat n :: rat) < of_nat (2 ^ 63)"
    by (simp only: of_nat_less_iff)
  then have lt: "(of_nat n :: rat) < 2 ^ 63" by simp
  then have "(of_nat n :: rat) < 10 ^ 21" by simp
  with lt int_n show ?thesis by (simp add: bigint_in_def)
qed

lemma bigint_in_fifty [simp]: "bigint_in 50 = Inr 50" and bigint_in_zero [simp]: "bigint_in 0 = Inr 0"
  using bigint_in_of_nat [of 50] bigint_in_of_nat [of 0] by simp_all

lemma map_mapRowToTodoItem [simp]: "map mapRowToTodoItem rs = rs"
  by (induction rs) simp_all

lemma getAllTodos_window:
  assumes "f_limit f = Some (of_nat l)" and "f_offset f = Some (of_nat off)"
      and "1 \<le> l" and "l < 2 ^ 63" and "off < 2 ^ 63"
  shows "getAllTodos L None rank d u f =
           Inr (take l (drop off (listing L rank d u f)),
                length (filter (passes L u f) (todo_items d)))"
proof -
  from assms(3) have "(of_nat l :: rat) \<noteq> 0" by simp
  with assms(1) have lim: "(case f_limit f of None \<Rightarrow> 50 | Some n \<Rightarrow> if n = 0 then 50 else n)
      = of_nat l" by simp
  from assms(2) have ofs: "(case f_offset f of None \<Rightarrow> 0 | Some n \<Rightarrow> if n = 0 then 0 else n)
      = of_nat off" by simp
  show ?thesis
    by (simp add: getAllTodos_def connect_def Let_def lim ofs bigint_in_of_nat [OF assms(4)]
          bigint_in_of_nat [OF assms(5)] whereConditions_passes listing_def)
qed

lemma getAllTodos_returned:
  assumes "getAllTodos L fault rank d u f = Inr (todos, n)"
  shows "n = length (filter (passes L u f) (todo_items d))
       \<and> (\<exists>l off. todos = take l (drop off (listing L rank d u f)))"
proof -
  from assms have "fault = None"
    by (cases fault) (simp_all add: getAllTodos_def connect_def)
  with assms show ?thesis
    by (auto simp: getAllTodos_def connect_def Let_def whereConditions_passes listing_def
             split: if_splits sum.splits)
qed

lemma concat_windows:
  "concat (map (\<lambda>k. take l (drop (k * l) xs)) [0..<n]) = take (n * l) xs"
proof (induction n)
  case 0
  then show ?case by simp
next
  case (Suc n)
  have "concat (map (\<lambda>k. take l (drop (k * l) xs)) [0..<Suc n])
          = take (n * l) xs @ take l (drop (n * l) xs)"
    using Suc by simp
  also have "\<dots> = take (n * l + l) xs"
    by (rule take_add [symmetric])
  finally show ?case by (simp add: add.commute)
qed

lemma passes_ignores_window:
  "passes L u (f\<lparr>f_limit := a, f_offset := b\<rparr>) = passes L u f"
  by (rule ext) (simp add: passes_def)

text \<open>Without two items of one \<open>created_at\<close> the engine has no choice of order.\<close>

lemma listing_no_ties:
  assumes "distinct (map created_at (filter (passes L u f) (todo_items d)))"
  shows "listing L rank d u f = listing L rank' d u f"
proof -
  let ?m = "filter (passes L u f) (todo_items d)"
  let ?key = "\<lambda>r. - created_at r"
  from assms have "inj_on created_at (set ?m)" by (simp add: distinct_map)
  then have inj: "inj_on ?key (set ?m)" by (auto simp: inj_on_def)
  have "sort_key ?key ?m = listing L r d u f" for r
    unfolding listing_def
    by (rule sort_key_inj_key_eq [OF _ inj]) (simp_all add: sorted_sort_key)
  then show ?thesis by metis
qed

lemma page_window:
  assumes "1 \<le> l" and "l < 2 ^ 63" and "k * l < 2 ^ 63"
  shows "page L ranks d u f l k = take l (drop (k * l) (listing L (ranks k) d u f))"
proof -
  let ?f = "f\<lparr>f_limit := Some (of_nat l), f_offset := Some (of_nat (k * l))\<rparr>"
  have "listing L (ranks k) d u ?f = listing L (ranks k) d u f"
    by (simp add: listing_def passes_ignores_window)
  moreover have "getAllTodos L None (ranks k) d u ?f =
           Inr (take l (drop (k * l) (listing L (ranks k) d u ?f)),
                length (filter (passes L u ?f) (todo_items d)))"
    using assms by (intro getAllTodos_window) simp_all
  ultimately show ?thesis
    by (simp add: page_def)
qed

lemma pages_no_ties:
  assumes l: "1 \<le> l" and bound: "k * l < 2 ^ 63"
      and distinct: "distinct (map created_at (filter (passes L u f) (todo_items d)))"
  shows "concat (map (page L ranks d u f l) [0..<k]) = take (k * l) (listing L rank d u f)"
proof -
  have "page L ranks d u f l j = take l (drop (j * l) (listing L rank d u f))"
    if "j \<in> set [0..<k]" for j
  proof -
    from that have j: "j < k" by simp
    then have "j * l \<le> k * l" by (intro mult_le_mono1) simp
    from this bound have jl: "j * l < 2 ^ 63" by (rule le_less_trans)
    from j l have "l \<le> k * l" by (cases k) simp_all
    from this bound have "l < 2 ^ 63" by (rule le_less_trans)
    from page_window [OF l this jl]
    have "page L ranks d u f l j = take l (drop (j * l) (listing L (ranks j) d u f))" .
    also have "listing L (ranks j) d u f = listing L rank d u f"
      by (rule listing_no_ties [OF distinct])
    finally show ?thesis .
  qed
  then have "map (page L ranks d u f l) [0..<k]
      = map (\<lambda>j. take l (drop (j * l) (listing L rank d u f))) [0..<k]"
    by (intro map_cong) simp_all
  then show ?thesis by (simp only: concat_windows)
qed

text \<open>The underscore of a pattern stands for one character, of however many bytes.\<close>

lemma underscore_is_one_character:
  "ILIKE sample_platform [CHR ''a'', CHR 0xE2, CHR 0x82, CHR 0xAC, CHR ''c''] ''%a_c%''"
  "utf8_chars [CHR ''a'', CHR 0xE2, CHR 0x82, CHR 0xAC, CHR ''c'']
     = [''a'', [CHR 0xE2, CHR 0x82, CHR 0xAC], ''c'']"
  by code_simp+

text \<open>
  Claim C4, amended. With the search text read as the engine reads it, a pattern of
  \<open>ILIKE\<close> between two \<open>%\<close>, in which \<open>%\<close> stands for any run of characters,
  \<open>_\<close> for any one character and a backslash makes the next character literal, and
  which is a substring test without regard to case only when the text holds none of the
  three: whatever \<open>getAllTodos\<close> returns, the count is the number of the caller's items
  that pass the filters, whatever the window, and the items come newest first; for an
  integer limit of at least 1 and an integer offset, both within the engine's
  \<open>bigint\<close>, the items are that window of a newest-first order of the filtered items,
  an order in which the engine places items of equal creation time as it likes, anew for
  every query; and when no two filtered items share a creation time, paging with a fixed
  limit and offsets 0, limit, twice the limit and so on returns every filtered item exactly
  once, in that order.
\<close>

theorem getAllTodos_count_order_paging:
  "(getAllTodos L fault rank d u f = Inr (todos, n) \<longrightarrow>
        n = length (filter (passes L u f) (todo_items d))
      \<and> sorted_wrt (\<lambda>a b. created_at b \<le> created_at a) todos)
   \<and> (1 \<le> l \<and> l < 2 ^ 63 \<and> off < 2 ^ 63 \<longrightarrow>
        getAllTodos L None rank d u (f\<lparr>f_limit := Some (of_nat l), f_offset := Some (of_nat off)\<rparr>)
          = Inr (take l (drop off (listing L rank d u f)),
                 length (filter (passes L u f) (todo_items d))))
   \<and> passes L u (f\<lparr>f_limit := a, f_offset := b\<rparr>) = passes L u f
   \<and> (f_search f = None \<longrightarrow> passes L u f = passes_substring L u f)
   \<and> (\<forall>s. f_search f = Some s \<and> like_plain s \<and> starts_character s \<longrightarrow>
          passes L u f = passes_substring L u f)
   \<and> mset (listing L rank d u f) = mset (filter (passes L u f) (todo_items d))
   \<and> (1 \<le> l \<and> k * l < 2 ^ 63
        \<and> length (filter (passes L u f) (todo_items d)) \<le> k * l
        \<and> distinct (map created_at (filter (passes L u f) (todo_items d))) \<longrightarrow>
        concat (map (page L ranks d u f l) [0..<k]) = listing L rank d u f)"
proof (intro conjI impI allI)
  assume r: "getAllTodos L fault rank d u f = Inr (todos, n)"
  from getAllTodos_returned [OF r]
  show "n = length (filter (passes L u f) (todo_items d))" by blast
  from getAllTodos_returned [OF r] obtain l' off'
    where "todos = take l' (drop off' (listing L rank d u f))" by blast
  with sorted_wrt_window [OF sorted_listing, of l' off' L rank d u f]
  show "sorted_wrt (\<lambda>a b. created_at b \<le> created_at a) todos" by simp
next
  assume l: "1 \<le> l \<and> l < 2 ^ 63 \<and> off < 2 ^ 63"
  let ?f = "f\<lparr>f_limit := Some (of_nat l), f_offset := Some (of_nat off)\<rparr>"
  have "getAllTodos L None rank d u ?f =
           Inr (take l (drop off (listing L rank d u ?f)),
                length (filter (passes L u ?f) (todo_items d)))"
    using l by (intro getAllTodos_window) simp_all
  then show "getAllTodos L None rank d u ?f
          = Inr (take l (drop off (listing L rank d u f)),
                 length (filter (passes L u f) (todo_items d)))"
    by (simp add: listing_def passes_ignores_window)
next
  show "passes L u (f\<lparr>f_limit := a, f_offset := b\<rparr>) = passes L u f"
    by (rule passes_ignores_window)
next
  assume "f_search f = None"
  then show "passes L u f = passes_substring L u f"
    by (intro ext) (simp add: passes_def passes_substring_def)
next
  fix s assume "f_search f = Some s \<and> like_plain s \<and> starts_character s"
  then show "passes L u f = passes_substring L u f"
    by (intro ext) (simp add: passes_plain)
next
  show "mset (listing L rank d u f) = mset (filter (passes L u f) (todo_items d))"
    by (simp add: listing_def)
next
  assume a: "1 \<le> l \<and> k * l < 2 ^ 63
        \<and> length (filter (passes L u f) (todo_items d)) \<le> k * l
        \<and> distinct (map created_at (filter (passes L u f) (todo_items d)))"
  then have "concat (map (page L ranks d u f l) [0..<k]) = take (k * l) (listing L rank d u f)"
    by (intro pages_no_ties) simp_all
  moreover have "length (listing L rank d u f) \<le> k * l"
    using a by (simp add: listing_def)
  ultimately show "concat (map (page L ranks d u f l) [0..<k]) = listing L rank d u f"
    by simp
qed

lemma sample_passes:
  "passes sample_platform ''alice'' no_filter abc_todo"
  "passes sample_platform ''alice'' no_filter xyz_todo"
  "passes sample_platform ''alice'' b_search abc_todo"
  "passes sample_platform ''alice'' a_c_search abc_todo"
  "\<not> passes_substring sample_platform ''alice'' a_c_search abc_todo"
  by code_simp+

lemma sample_keys [simp]:
  "created_at abc_todo = 10" "created_at xyz_todo = 10"
  "abc_first abc_todo = 0" "abc_first xyz_todo = 1"
  "xyz_first abc_todo = 1" "xyz_first xyz_todo = 0"
  "storage_order abc_todo = 0"
  by (simp_all add: abc_todo_def xyz_todo_def abc_first_def xyz_first_def storage_order_def)

theorem getAllTodos_count_order_paging_witness:
  "getAllTodos sample_platform None storage_order sample_db ''alice'' no_filter
     = Inr ([abc_todo], 1)
   \<and> concat (map (page sample_platform shifting_ranks sample_db ''alice'' no_filter 50) [0..<1])
     = [abc_todo]
   \<and> getAllTodos sample_platform None storage_order sample_db ''alice'' b_search
     = Inr ([abc_todo], 1)
   \<and> passes_substring sample_platform ''alice'' b_search abc_todo"
proof -
  have nf: "no_filter\<lparr>f_limit := Some (of_nat 50), f_offset := Some (of_nat 0)\<rparr> = no_filter"
    and bf: "b_search\<lparr>f_limit := Some (of_nat 1), f_offset := Some (of_nat 0)\<rparr> = b_search"
    by (simp_all add: no_filter_def b_search_def)
  have p: "filter (passes sample_platform ''alice'' no_filter) (todo_items sample_db) = [abc_todo]"
    by (simp add: sample_passes sample_db_def)
  then have ls: "listing sample_platform storage_order sample_db ''alice'' no_filter = [abc_todo]"
    by (simp add: listing_def)
  have s: "f_search b_search = Some ''B''" and plain: "like_plain ''B''"
    and start: "starts_character ''B''"
    by (simp_all add: b_search_def like_plain_def starts_character_def continuation_def)
  have p': "filter (passes sample_platform ''alice'' b_search) (todo_items sample_db) = [abc_todo]"
    by (simp add: sample_passes sample_db_def)
  then have ls': "listing sample_platform storage_order sample_db ''alice'' b_search = [abc_todo]"
    by (simp add: listing_def)
  note no = getAllTodos_count_order_paging
         [where L = sample_platform and rank = storage_order and d = sample_db
            and u = "''alice''" and f = no_filter and l = 50 and off = 0 and k = 1
            and ranks = shifting_ranks]
  note b = getAllTodos_count_order_paging
         [where L = sample_platform and rank = storage_order and d = sample_db
            and u = "''alice''" and f = b_search and l = 1 and off = 0]
  have bounds: "(1::nat) \<le> 50 \<and> (50::nat) < 2 ^ 63 \<and> (0::nat) < 2 ^ 63"
    "(1::nat) \<le> 1 \<and> (1::nat) < 2 ^ 63 \<and> (0::nat) < 2 ^ 63"
    by simp_all
  from no [THEN conjunct2, THEN conjunct1, rule_format, OF bounds(1)]
  have 1: "getAllTodos sample_platform None storage_order sample_db ''alice'' no_filter
     = Inr ([abc_todo], 1)"
    unfolding nf p ls by simp
  have "(1::nat) \<le> 50 \<and> (1::nat) * 50 < 2 ^ 63
        \<and> length (filter (passes sample_platform ''alice'' no_filter) (todo_items sample_db))
            \<le> 1 * 50
        \<and> distinct (map created_at
             (filter (passes sample_platform ''alice'' no_filter) (todo_items sample_db)))"
    unfolding p by simp
  from no [THEN conjunct2, THEN conjunct2, THEN conjunct2, THEN conjunct2, THEN conjunct2,
           THEN conjunct2, rule_format, OF this]
  have 2: "concat (map (page sample_platform shifting_ranks sample_db ''alice'' no_filter 50)
             [0..<1]) = [abc_todo]"
    unfolding ls .
  from b [THEN conjunct2, THEN conjunct1, rule_format, OF bounds(2)]
  have 3: "getAllTodos sample_platform None storage_order sample_db ''alice'' b_search
     = Inr ([abc_todo], 1)"
    unfolding bf p' ls' by simp
  from b [THEN conjunct2, THEN conjunct2, THEN conjunct2, THEN conjunct2, THEN conjunct1,
          rule_format, of "''B''"] s plain start
  have "passes sample_platform ''alice'' b_search = passes_substring sample_platform ''alice'' b_search"
    by blast
  with sample_passes(3)
  have 4: "passes_substring sample_platform ''alice'' b_search abc_todo" by simp
  from 1 2 3 4 show ?thesis by (intro conjI)
qed

text \<open>
  Claim C4 as stated fails twice. The search \<open>a_c\<close> counts the item titled \<open>abc\<close>,
  which does not contain it. And of two items of the caller created at the same instant,
  an engine that orders them one way for the first page and the other way for the second
  returns one of them twice and the other never, paging with limit 1.
\<close>

theorem substring_count_counterexample:
  "getAllTodos sample_platform None storage_order sample_db ''alice'' a_c_search
     = Inr ([abc_todo], 1)
   \<and> length (filter (passes_substring sample_platform ''alice'' a_c_search)
               (todo_items sample_db)) = 0
   \<and> filter (passes sample_platform ''alice'' no_filter) (todo_items tied_db)
     = [abc_todo, xyz_todo]
   \<and> concat (map (page sample_platform shifting_ranks tied_db ''alice'' no_filter 1) [0..<2])
     = [abc_todo, abc_todo]"
proof -
  have lim: "f_limit a_c_search = Some (of_nat 50)" "f_offset a_c_search = Some (of_nat 0)"
    by (simp_all add: a_c_search_def)
  have m: "filter (passes sample_platform ''alice'' a_c_search) (todo_items sample_db) = [abc_todo]"
    by (simp add: sample_passes sample_db_def)
  from getAllTodos_window [OF lim, of sample_platform storage_order sample_db "''alice''"] m
  have 1: "getAllTodos sample_platform None storage_order sample_db ''alice'' a_c_search
     = Inr ([abc_todo], 1)"
    by (simp add: listing_def)
  have 2: "length (filter (passes_substring sample_platform ''alice'' a_c_search)
               (todo_items sample_db)) = 0"
    by (simp add: sample_passes sample_db_def)
  have 3: "filter (passes sample_platform ''alice'' no_filter) (todo_items tied_db)
     = [abc_todo, xyz_todo]"
    by (simp add: sample_passes tied_db_def)
  then have ls: "listing sample_platform abc_first tied_db ''alice'' no_filter = [abc_todo, xyz_todo]"
    "listing sample_platform xyz_first tied_db ''alice'' no_filter = [xyz_todo, abc_todo]"
    by (simp_all add: listing_def)
  have "page sample_platform shifting_ranks tied_db ''alice'' no_filter 1 0 = [abc_todo]"
    "page sample_platform shifting_ranks tied_db ''alice'' no_filter 1 (Suc 0) = [abc_todo]"
    using page_window [of 1 0 sample_platform shifting_ranks tied_db "''alice''" no_filter]
      page_window [of 1 1 sample_platform shifting_ranks tied_db "''alice''" no_filter] ls
    by (simp_all add: shifting_ranks_def)
  then have 4: "concat (map (page sample_platform shifting_ranks tied_db ''alice'' no_filter 1) [0..<2])
     = [abc_todo, abc_todo]"
    by (simp add: upt_rec numeral_2_eq_2)
  from 1 2 3 4 show ?thesis by simp
qed

subsection \<open>The tools\<close>

lemma marks_not_empty [simp]:
  "cross_mark \<noteq> []" "check_mark \<noteq> []" "memo \<noteq> []" "wastebasket \<noteq> []"
  "bar_chart \<noteq> []" "party \<noteq> []"
  by (simp_all add: cross_mark_def check_mark_def memo_def wastebasket_def bar_chart_def party_def)

lemma createTodo_answers:
  "\<exists>t d'. tool_createTodo L fault nid d params hs = Inr (\<lparr> content = [Text t] \<rparr>, d')
     \<and> t \<noteq> []
     \<and> t = (case CreateTodoSchema L params of
              Inl e \<Rightarrow> cross_mark @ '' Error creating TODO: '' @ message L e
            | Inr validatedData \<Rightarrow>
                (case createTodo L fault nid d validatedData (extractUserInfo hs) of
                   Inl e \<Rightarrow> cross_mark @ '' Error creating TODO: '' @ message L e
                 | Inr (todo, d2) \<Rightarrow>
                     check_mark @ '' TODO created successfully!'' @ nl @ nl @
                     ''**'' @ title todo @ ''**'' @ nl @ description_line todo @
                     ''Priority: '' @ priority_str (priority todo) @ nl @ due_line L todo @
                     ''ID: '' @ todo_id todo))"
  by (auto simp: tool_createTodo_def try_catch_def failure_def Let_def
           split: sum.splits prod.splits)

lemma getTodo_answers:
  "\<exists>t. tool_getTodo L fault d params hs = Inr \<lparr> content = [Text t] \<rparr>
     \<and> t \<noteq> []
     \<and> t = (case IdSchema params of
              Inl e \<Rightarrow> cross_mark @ '' Error retrieving TODO: '' @ message L e
            | Inr i \<Rightarrow>
                (case getTodoById L fault d i (uid (extractUserInfo hs)) of
                   Inl e \<Rightarrow> cross_mark @ '' Error retrieving TODO: '' @ message L e
                 | Inr None \<Rightarrow> cross_mark @ '' TODO with ID '' @ dquote @ i @ dquote @ '' not found''
                 | Inr (Some todo) \<Rightarrow>
                     ''**'' @ title todo @ ''**'' @ nl @ description_line todo @
                     ''Status: '' @ status_words todo @ nl @
                     ''Priority: '' @ priority_str (priority todo) @ nl @ due_line L todo @
                     ''Created: '' @ toLocaleDateString L (created_at todo) @ nl @
                     ''Updated: '' @ toLocaleDateString L (updated_at todo) @ nl @
                     ''ID: '' @ todo_id todo))"
  by (auto simp: tool_getTodo_def try_catch_def failure_def not_found_def Let_def
           split: sum.splits option.splits)

lemma listTodos_answers:
  "\<exists>t. tool_listTodos L fault rank d params hs = Inr \<lparr> content = [Text t] \<rparr>
     \<and> t \<noteq> []
     \<and> t = (case TodoFilterSchema params of
              Inl e \<Rightarrow> cross_mark @ '' Error listing TODOs: '' @ message L e
            | Inr f \<Rightarrow>
                (case getAllTodos L fault rank d (uid (extractUserInfo hs)) f of
                   Inl e \<Rightarrow> cross_mark @ '' Error listing TODOs: '' @ message L e
                 | Inr (todos, totalCount) \<Rightarrow>
                     if todos = []
                     then memo @ '' No TODO items found'' @
                          (case f_search f of
                             None \<Rightarrow> []
                           | Some s \<Rightarrow> if s = [] then [] else '' matching '' @ dquote @ s @ dquote)
                     else memo @ '' Found '' @ show_nat totalCount @ '' TODO items (showing '' @
                          show_nat (length todos) @ ''):'' @ nl @ nl @
                          join nl (map (todo_line L) todos)))"
  by (auto simp: tool_listTodos_def try_catch_def failure_def Let_def
           split: sum.splits prod.splits)

lemma updateTodo_answers:
  "\<exists>t d'. tool_updateTodo L fault d params hs = Inr (\<lparr> content = [Text t] \<rparr>, d')
     \<and> t \<noteq> []
     \<and> t = (case UpdateTodoSchema_with_id L params of
              Inl e \<Rightarrow> cross_mark @ '' Error updating TODO: '' @ message L e
            | Inr (i, updates) \<Rightarrow>
                (case updateTodo L fault d i updates (uid (extractUserInfo hs)) of
                   Inl e \<Rightarrow> cross_mark @ '' Error updating TODO: '' @ message L e
                 | Inr (None, d2) \<Rightarrow>
                     cross_mark @ '' TODO with ID '' @ dquote @ i @ dquote @ '' not found''
                 | Inr (Some todo, d2) \<Rightarrow>
                     check_mark @ '' TODO updated successfully!'' @ nl @ nl @
                     ''**'' @ title todo @ ''**'' @ nl @ description_line todo @
                     ''Status: '' @ status_words todo @ nl @
                     ''Priority: '' @ priority_str (priority todo) @ nl @ due_line L todo @
                     ''Updated: '' @ toLocaleDateString L (updated_at todo) @ nl @
                     ''ID: '' @ todo_id todo))"
  by (auto simp: tool_updateTodo_def try_catch_def failure_def not_found_def Let_def
           split: sum.splits prod.splits option.splits)

lemma deleteTodo_answers:
  "\<exists>t d'. tool_deleteTodo L fault d params hs = Inr (\<lparr> content = [Text t] \<rparr>, d')
     \<and> t \<noteq> []
     \<and> t = (case IdSchema params of
              Inl e \<Rightarrow> cross_mark @ '' Error deleting TODO: '' @ message L e
            | Inr i \<Rightarrow>
                (case deleteTodo L fault d i (uid (extractUserInfo hs)) of
                   Inl e \<Rightarrow> cross_mark @ '' Error deleting TODO: '' @ message L e
                 | Inr (success, d2) \<Rightarrow>
                     if success
                     then wastebasket @ '' TODO with ID '' @ dquote @ i @ dquote @
                          '' deleted successfully''
                     else cross_mark @ '' TODO with ID '' @ dquote @ i @ dquote @ '' not found''))"
  by (auto simp: tool_deleteTodo_def try_catch_def failure_def not_found_def Let_def
           split: sum.splits prod.splits)

lemma completeTodo_answers:
  "\<exists>t d'. tool_completeTodo L fault d params hs = Inr (\<lparr> content = [Text t] \<rparr>, d')
     \<and> t \<noteq> []
     \<and> t = (case IdSchema params of
              Inl e \<Rightarrow> cross_mark @ '' Error completing TODO: '' @ message L e
            | Inr i \<Rightarrow>
                (case updateTodo L fault d i (no_updates\<lparr>upd_completed := Some True\<rparr>)
                        (uid (extractUserInfo hs)) of
                   Inl e \<Rightarrow> cross_mark @ '' Error completing TODO: '' @ message L e
                 | Inr (None, d2) \<Rightarrow>
                     cross_mark @ '' TODO with ID '' @ dquote @ i @ dquote @ '' not found''
                 | Inr (Some todo, d2) \<Rightarrow>
                     party @ '' Congratulations! TODO completed:'' @ nl @ nl @
                     ''**'' @ title todo @ ''**'' @ nl @ description_line todo @
                     ''Priority: '' @ priority_str (priority todo) @ nl @
                     ''Completed: '' @ toLocaleDateString L (updated_at todo) @ nl @
                     ''ID: '' @ todo_id todo))"
  by (auto simp: tool_completeTodo_def try_catch_def failure_def not_found_def Let_def
             no_updates_def
           split: sum.splits prod.splits option.splits)

lemma getTodoStats_answers:
  "\<exists>t. tool_getTodoStats L fault d params hs = Inr \<lparr> content = [Text t] \<rparr>
     \<and> t \<noteq> []
     \<and> t = (case getTodoStats fault d (uid (extractUserInfo hs)) of
              Inl e \<Rightarrow> cross_mark @ '' Error getting statistics: '' @ message L e
            | Inr stats \<Rightarrow>
                bar_chart @ '' TODO Statistics for '' @ name (extractUserInfo hs) @ '':'' @
                nl @ nl @
                memo @ '' Total: '' @ show_nat (total stats) @ nl @
                check_mark @ '' Completed: '' @ show_nat (n_completed stats) @ nl @
                hourglass @ '' Pending: '' @ show_nat (pending stats) @ nl @
                siren @ '' Overdue: '' @ show_nat (overdue stats) @ nl @ nl @
                ''Completion Rate: '' @
                show_nat (if total stats > 0
                          then completion_rate L (n_completed stats) (total stats) else 0) @
                ''%'')"
  by (auto simp: tool_getTodoStats_def try_catch_def failure_def Let_def split: sum.splits)

lemma getTodoResources_answers:
  "\<exists>t. tool_getTodoResources L fault rank d params hs =
          Inr \<lparr> content = (case TodoFilterSchema params of
                             Inl e \<Rightarrow> [Text t]
                           | Inr f \<Rightarrow>
                               (case getAllTodos L fault rank d (uid (extractUserInfo hs)) f of
                                  Inl e \<Rightarrow> [Text t]
                                | Inr found \<Rightarrow>
                                    [Text t,
                                     Text (nl @ ''You can read any of these resources using their URI.'')])) \<rparr>
     \<and> t \<noteq> []
     \<and> t = (case TodoFilterSchema params of
              Inl e \<Rightarrow> cross_mark @ '' Error getting TODO resources: '' @ message L e
            | Inr f \<Rightarrow>
                (case getAllTodos L fault rank d (uid (extractUserInfo hs)) f of
                   Inl e \<Rightarrow> cross_mark @ '' Error getting TODO resources: '' @ message L e
                 | Inr (todos, totalCount) \<Rightarrow>
                     memo @ '' Available TODO resources ('' @ show_nat (length todos) @
                     '' items):''))"
  by (auto simp: tool_getTodoResources_def try_catch_def failure_def Let_def resourceLinks_def
           split: sum.splits prod.splits)

text \<open>
  Claim C2. Each of the eight tools returns, for every argument value, every header set,
  every store and every verdict of the engine, a response whose first block is a text: the
  text of the validation or storage error behind the cross mark and the tool's own words
  when the arguments are refused or the store fails, the not-found sentence with the id when
  the item is absent, and the tool's report otherwise. No tool throws.
\<close>

theorem tools_always_answer:
  "(\<exists>t d'. tool_createTodo L fault nid d params hs = Inr (\<lparr> content = [Text t] \<rparr>, d')
     \<and> t \<noteq> []
     \<and> t = (case CreateTodoSchema L params of
              Inl e \<Rightarrow> cross_mark @ '' Error creating TODO: '' @ message L e
            | Inr validatedData \<Rightarrow>
                (case createTodo L fault nid d validatedData (extractUserInfo hs) of
                   Inl e \<Rightarrow> cross_mark @ '' Error creating TODO: '' @ message L e
                 | Inr (todo, d2) \<Rightarrow>
                     check_mark @ '' TODO created successfully!'' @ nl @ nl @
                     ''**'' @ title todo @ ''**'' @ nl @ description_line todo @
                     ''Priority: '' @ priority_str (priority todo) @ nl @ due_line L todo @
                     ''ID: '' @ todo_id todo)))
   \<and> (\<exists>t. tool_getTodo L fault d params hs = Inr \<lparr> content = [Text t] \<rparr>
     \<and> t \<noteq> []
     \<and> t = (case IdSchema params of
              Inl e \<Rightarrow> cross_mark @ '' Error retrieving TODO: '' @ message L e
            | Inr i \<Rightarrow>
                (case getTodoById L fault d i (uid (extractUserInfo hs)) of
                   Inl e \<Rightarrow> cross_mark @ '' Error retrieving TODO: '' @ message L e
                 | Inr None \<Rightarrow> cross_mark @ '' TODO with ID '' @ dquote @ i @ dquote @ '' not found''
                 | Inr (Some todo) \<Rightarrow>
                     ''**'' @ title todo @ ''**'' @ nl @ description_line todo @
                     ''Status: '' @ status_words todo @ nl @
                     ''Priority: '' @ priority_str (priority todo) @ nl @ due_line L todo @
                     ''Created: '' @ toLocaleDateString L (created_at todo) @ nl @
                     ''Updated: '' @ toLocaleDateString L (updated_at todo) @ nl @
                     ''ID: '' @ todo_id todo)))
   \<and> (\<exists>t. tool_listTodos L fault rank d params hs = Inr \<lparr> content = [Text t] \<rparr>
     \<and> t \<noteq> []
     \<and> t = (case TodoFilterSchema params of
              Inl e \<Rightarrow> cross_mark @ '' Error listing TODOs: '' @ message L e
            | Inr f \<Rightarrow>
                (case getAllTodos L fault rank d (uid (extractUserInfo hs)) f of
                   Inl e \<Rightarrow> cross_mark @ '' Error listing TODOs: '' @ message L e
                 | Inr (todos, totalCount) \<Rightarrow>
                     if todos = []
                     then memo @ '' No TODO items found'' @
                          (case f_search f of
                             None \<Rightarrow> []
                           | Some s \<Rightarrow> if s = [] then [] else '' matching '' @ dquote @ s @ dquote)
                     else memo @ '' Found '' @ show_nat totalCount @ '' TODO items (showing '' @
                          show_nat (length todos) @ ''):'' @ nl @ nl @
                          join nl (map (todo_line L) todos))))
   \<and> (\<exists>t d'. tool_updateTodo L fault d params hs = Inr (\<lparr> content = [Text t] \<rparr>, d')
     \<and> t \<noteq> []
     \<and> t = (case UpdateTodoSchema_with_id L params of
              Inl e \<Rightarrow> cross_mark @ '' Error updating TODO: '' @ message L e
            | Inr (i, updates) \<Rightarrow>
                (case updateTodo L fault d i updates (uid (extractUserInfo hs)) of
                   Inl e \<Rightarrow> cross_mark @ '' Error updating TODO: '' @ message L e
                 | Inr (None, d2) \<Rightarrow>
                     cross_mark @ '' TODO with ID '' @ dquote @ i @ dquote @ '' not found''
                 | Inr (Some todo, d2) \<Rightarrow>
                     check_mark @ '' TODO updated successfully!'' @ nl @ nl @
                     ''**'' @ title todo @ ''**'' @ nl @ description_line todo @
                     ''Status: '' @ status_words todo @ nl @
                     ''Priority: '' @ priority_str (priority todo) @ nl @ due_line L todo @
                     ''Updated: '' @ toLocaleDateString L (updated_at todo) @ nl @
                     ''ID: '' @ todo_id todo)))
   \<and> (\<exists>t d'. tool_deleteTodo L fault d params hs = Inr (\<lparr> content = [Text t] \<rparr>, d')
     \<and> t \<noteq> []
     \<and> t = (case IdSchema params of
              Inl e \<Rightarrow> cross_mark @ '' Error deleting TODO: '' @ message L e
            | Inr i \<Rightarrow>
                (case deleteTodo L fault d i (uid (extractUserInfo hs)) of
                   Inl e \<Rightarrow> cross_mark @ '' Error deleting TODO: '' @ message L e
                 | Inr (success, d2) \<Rightarrow>
                     if success
                     then wastebasket @ '' TODO with ID '' @ dquote @ i @ dquote @
                          '' deleted successfully''
                     else cross_mark @ '' TODO with ID '' @ dquote @ i @ dquote @ '' not found'')))
   \<and> (\<exists>t d'. tool_completeTodo L fault d params hs = Inr (\<lparr> content = [Text t] \<rparr>, d')
     \<and> t \<noteq> []
     \<and> t = (case IdSchema params of
              Inl e \<Rightarrow> cross_mark @ '' Error completing TODO: '' @ message L e
            | Inr i \<Rightarrow>
                (case updateTodo L fault d i (no_updates\<lparr>upd_completed := Some True\<rparr>)
                        (uid (extractUserInfo hs)) of
                   Inl e \<Rightarrow> cross_mark @ '' Error completing TODO: '' @ message L e
                 | Inr (None, d2) \<Rightarrow>
                     cross_mark @ '' TODO with ID '' @ dquote @ i @ dquote @ '' not found''
                 | Inr (Some todo, d2) \<Rightarrow>
                     party @ '' Congratulations! TODO completed:'' @ nl @ nl @
                     ''**'' @ title todo @ ''**'' @ nl @ description_line todo @
                     ''Priority: '' @ priority_str (priority todo) @ nl @
                     ''Completed: '' @ toLocaleDateString L (updated_at todo) @ nl @
                     ''ID: '' @ todo_id todo)))
   \<and> (\<exists>t. tool_getTodoStats L fault d params hs = Inr \<lparr> content = [Text t] \<rparr>
     \<and> t \<noteq> []
     \<and> t = (case getTodoStats fault d (uid (extractUserInfo hs)) of
              Inl e \<Rightarrow> cross_mark @ '' Error getting statistics: '' @ message L e
            | Inr stats \<Rightarrow>
                bar_chart @ '' TODO Statistics for '' @ name (extractUserInfo hs) @ '':'' @
                nl @ nl @
                memo @ '' Total: '' @ show_nat (total stats) @ nl @
                check_mark @ '' Completed: '' @ show_nat (n_completed stats) @ nl @
                hourglass @ '' Pending: '' @ show_nat (pending stats) @ nl @
                siren @ '' Overdue: '' @ show_nat (overdue stats) @ nl @ nl @
                ''Completion Rate: '' @
                show_nat (if total stats > 0
                          then completion_rate L (n_completed stats) (total stats) else 0) @
                ''%''))
   \<and> (\<exists>t. tool_getTodoResources L fault rank d params hs =
          Inr \<lparr> content = (case TodoFilterSchema params of
                             Inl e \<Rightarrow> [Text t]
                           | Inr f \<Rightarrow>
                               (case getAllTodos L fault rank d (uid (extractUserInfo hs)) f of
                                  Inl e \<Rightarrow> [Text t]
                                | Inr found \<Rightarrow>
                                    [Text t,
                                     Text (nl @ ''You can read any of these resources using their URI.'')])) \<rparr>
     \<and> t \<noteq> []
     \<and> t = (case TodoFilterSchema params of
              Inl e \<Rightarrow> cross_mark @ '' Error getting TODO resources: '' @ message L e
            | Inr f \<Rightarrow>
                (case getAllTodos L fault rank d (uid (extractUserInfo hs)) f of
                   Inl e \<Rightarrow> cross_mark @ '' Error getting TODO resources: '' @ message L e
                 | Inr (todos, totalCount) \<Rightarrow>
                     memo @ '' Available TODO resources ('' @ show_nat (length todos) @
                     '' items):'')))"
  by (intro conjI createTodo_answers getTodo_answers listTodos_answers updateTodo_answers deleteTodo_answers completeTodo_answers getTodoStats_answers getTodoResources_answers)

lemma IdSchema_id_params [simp]: "IdSchema (id_params i) = Inr i"
  by (simp add: IdSchema_def id_params_def z_object_def z_field_def z_string_def checked_def)

lemma IdSchema_reject: "IdSchema JNull = Inl (ZodError [\<lparr> code = invalid_type, path = [], custom = None \<rparr>])"
  by (simp add: IdSchema_def z_object_def)

lemma alice_is_alice [simp]: "uid (extractUserInfo alice_headers) = ''alice''"
  by (simp add: extractUserInfo_def alice_headers_def or_else_def)

theorem tools_always_answer_witness:
  "tool_getTodo sample_platform (Some ''connection refused'') sample_db (id_params abc_id)
       alice_headers
     = Inr \<lparr> content = [Text (cross_mark @ '' Error retrieving TODO: connection refused'')] \<rparr>
   \<and> tool_getTodo sample_platform None sample_db JNull alice_headers
     = Inr \<lparr> content = [Text (cross_mark @ '' Error retrieving TODO: invalid arguments'')] \<rparr>
   \<and> tool_getTodo sample_platform None sample_db (id_params xyz_id) alice_headers
     = Inr \<lparr> content = [Text (cross_mark @ '' TODO with ID '' @ dquote @ xyz_id @ dquote @
                                  '' not found'')] \<rparr>
   \<and> tool_getTodo sample_platform None sample_db (id_params ''todo-id-here'') alice_headers
     = Inr \<lparr> content = [Text (cross_mark @ '' Error retrieving TODO: '' @
                                  ''invalid input syntax for type uuid: '' @
                                  dquote @ ''todo-id-here'' @ dquote)] \<rparr>"
proof -
  note getTodo = tools_always_answer [THEN conjunct2, THEN conjunct1]
  have down: "getTodoById sample_platform (Some ''connection refused'') sample_db abc_id ''alice''
      = Inl (Error ''connection refused'')"
    by (simp add: getTodoById_def connect_def)
  have missing: "getTodoById sample_platform None sample_db xyz_id ''alice'' = Inr None"
    by (simp add: getTodoById_def connect_def sample_db_def abc_todo_def owned_row_def)
  have malformed: "getTodoById sample_platform None sample_db ''todo-id-here'' ''alice''
      = Inl (invalid_uuid ''todo-id-here'')"
    by (simp add: getTodoById_def connect_def)
  have m: "message sample_platform (Error x) = x"
    "message sample_platform (ZodError is) = ''invalid arguments''" for x "is"
    by (simp_all add: message_def sample_platform_def)
  from getTodo [of sample_platform "Some ''connection refused''" sample_db "id_params abc_id"
                   alice_headers] down
  have 1: "tool_getTodo sample_platform (Some ''connection refused'') sample_db (id_params abc_id)
       alice_headers
     = Inr \<lparr> content = [Text (cross_mark @ '' Error retrieving TODO: connection refused'')] \<rparr>"
    by (auto simp: m)
  from getTodo [of sample_platform None sample_db JNull alice_headers]
  have 2: "tool_getTodo sample_platform None sample_db JNull alice_headers
     = Inr \<lparr> content = [Text (cross_mark @ '' Error retrieving TODO: invalid arguments'')] \<rparr>"
    by (auto simp: m IdSchema_reject)
  from getTodo [of sample_platform None sample_db "id_params xyz_id" alice_headers] missing
  have 3: "tool_getTodo sample_platform None sample_db (id_params xyz_id) alice_headers
     = Inr \<lparr> content = [Text (cross_mark @ '' TODO with ID '' @ dquote @ xyz_id @ dquote @
                                  '' not found'')] \<rparr>"
    by auto
  from getTodo [of sample_platform None sample_db "id_params ''todo-id-here''" alice_headers]
    malformed
  have 4: "tool_getTodo sample_platform None sample_db (id_params ''todo-id-here'') alice_headers
     = Inr \<lparr> content = [Text (cross_mark @ '' Error retrieving TODO: '' @
                                  ''invalid input syntax for type uuid: '' @
                                  dquote @ ''todo-id-here'' @ dquote)] \<rparr>"
    by (auto simp: m invalid_uuid_def dquote_def)
  from 1 2 3 4 show ?thesis by (intro conjI)
qed

subsection \<open>Reading a resource\<close>

lemma replace_first_scheme [simp]: "replace_first ''todo://'' [] (''todo://'' @ i) = i"
  by simp

text \<open>
  Claim C6. For the address \<open>todo://\<close> followed by an id: when no row with that id is
  owned by the caller, \<open>readTodoResource\<close> throws an error and returns no result (the
  error says the item was not found when \<open>getTodoById\<close> finds nothing, and carries the
  engine's message when the id is not a \<open>UUID\<close>); when \<open>getTodoById\<close> finds the item,
  it returns one content entry with the address and \<open>JSON.stringify\<close> of the item. A
  storage failure is thrown on as well.
\<close>

theorem readTodoResource_raises_or_serializes:
  "(getTodoById L None d i (uid (extractUserInfo hs)) = Inr None \<longrightarrow>
      readTodoResource L None d (''todo://'' @ i) hs =
        Inl (Error (''Error reading TODO resource: TODO with ID '' @ dquote @ i @ dquote @
                    '' not found'')))
   \<and> (getTodoById L None d i (uid (extractUserInfo hs)) = Inr (Some todo) \<longrightarrow>
      readTodoResource L None d (''todo://'' @ i) hs =
        Inr \<lparr> contents = [(''todo://'' @ i, JSON_stringify L todo)] \<rparr>)
   \<and> (getTodoById L None d i (uid (extractUserInfo hs)) = Inr None \<longleftrightarrow>
        uuid_in L i \<noteq> None
        \<and> \<not> list_ex (owned_row L i (uid (extractUserInfo hs))) (todo_items d))
   \<and> (uuid_in L i = None \<longrightarrow>
      readTodoResource L None d (''todo://'' @ i) hs =
        Inl (Error (''Error reading TODO resource: invalid input syntax for type uuid: '' @
                    dquote @ i @ dquote)))
   \<and> (\<not> list_ex (owned_row L i (uid (extractUserInfo hs))) (todo_items d) \<longrightarrow>
        (\<exists>m. readTodoResource L fault d (''todo://'' @ i) hs = Inl (Error m)))
   \<and> readTodoResource L (Some m) d (''todo://'' @ i) hs =
        Inl (Error (''Error reading TODO resource: '' @ m))"
proof -
  let ?u = "uid (extractUserInfo hs)"
  have iff: "getTodoById L None d i ?u = Inr None \<longleftrightarrow>
      uuid_in L i \<noteq> None \<and> \<not> list_ex (owned_row L i ?u) (todo_items d)"
  proof -
    have e: "filter (owned_row L i ?u) (todo_items d) = [] \<longleftrightarrow>
        \<not> list_ex (owned_row L i ?u) (todo_items d)"
      by (simp add: filter_empty_conv list_ex_iff)
    show ?thesis
      unfolding e [symmetric]
      by (cases "filter (owned_row L i ?u) (todo_items d)")
         (simp_all add: getTodoById_def connect_def invalid_uuid_def)
  qed
  have run: "readTodoResource L fault d (''todo://'' @ i) hs =
      (case getTodoById L fault d i ?u of
         Inl e \<Rightarrow> Inl (Error (''Error reading TODO resource: '' @ message L e))
       | Inr None \<Rightarrow> Inl (Error (''Error reading TODO resource: TODO with ID '' @ dquote @ i @
                                  dquote @ '' not found''))
       | Inr (Some todo) \<Rightarrow> Inr \<lparr> contents = [(''todo://'' @ i, JSON_stringify L todo)] \<rparr>)"
    for fault
    by (simp add: readTodoResource_def try_catch_def Let_def message_def
          split: sum.splits option.splits)
  have down: "readTodoResource L (Some m) d (''todo://'' @ i) hs =
        Inl (Error (''Error reading TODO resource: '' @ m))"
    unfolding run by (simp add: getTodoById_def connect_def message_def)
  have absent: "getTodoById L None d i ?u = Inr None \<longrightarrow>
      readTodoResource L None d (''todo://'' @ i) hs =
        Inl (Error (''Error reading TODO resource: TODO with ID '' @ dquote @ i @ dquote @
                    '' not found''))"
    unfolding run by simp
  have present: "getTodoById L None d i ?u = Inr (Some todo) \<longrightarrow>
      readTodoResource L None d (''todo://'' @ i) hs =
        Inr \<lparr> contents = [(''todo://'' @ i, JSON_stringify L todo)] \<rparr>"
    unfolding run by simp
  have malformed: "uuid_in L i = None \<longrightarrow>
      readTodoResource L None d (''todo://'' @ i) hs =
        Inl (Error (''Error reading TODO resource: invalid input syntax for type uuid: '' @
                    dquote @ i @ dquote))"
    unfolding run by (simp add: getTodoById_def connect_def message_def invalid_uuid_def dquote_def)
  have raises: "\<not> list_ex (owned_row L i ?u) (todo_items d) \<longrightarrow>
        (\<exists>m. readTodoResource L fault d (''todo://'' @ i) hs = Inl (Error m))"
  proof -
    have e: "filter (owned_row L i ?u) (todo_items d) = [] \<longleftrightarrow>
        \<not> list_ex (owned_row L i ?u) (todo_items d)"
      by (simp add: filter_empty_conv list_ex_iff)
    show ?thesis
      unfolding e [symmetric] run
      by (cases fault)
         (auto simp: getTodoById_def connect_def invalid_uuid_def)
  qed
  from absent present iff malformed raises down show ?thesis by (intro conjI)
qed

theorem readTodoResource_raises_or_serializes_witness:
  "readTodoResource sample_platform None sample_db (''todo://'' @ xyz_id) alice_headers =
        Inl (Error (''Error reading TODO resource: TODO with ID '' @ dquote @ xyz_id @ dquote @
                    '' not found''))
   \<and> readTodoResource sample_platform None sample_db (''todo://'' @ abc_id) alice_headers =
        Inr \<lparr> contents = [(''todo://'' @ abc_id, ''{ id: '' @ abc_id @ '' }'')] \<rparr>
   \<and> readTodoResource sample_platform None sample_db ''todo://stats'' alice_headers =
        Inl (Error (''Error reading TODO resource: invalid input syntax for type uuid: '' @
                    dquote @ ''stats'' @ dquote))"
proof -
  have a: "getTodoById sample_platform None sample_db xyz_id ''alice'' = Inr None"
    by (simp add: getTodoById_def connect_def sample_db_def abc_todo_def owned_row_def)
  have b: "getTodoById sample_platform None sample_db abc_id ''alice'' = Inr (Some abc_todo)"
    by (simp add: getTodoById_def connect_def sample_db_def abc_todo_def owned_row_def)
  have j: "JSON_stringify sample_platform abc_todo = ''{ id: '' @ abc_id @ '' }''"
    by (simp add: sample_platform_def abc_todo_def)
  have s: "uuid_in sample_platform ''stats'' = None"
    by code_simp
  from readTodoResource_raises_or_serializes
         [where d = sample_db and i = xyz_id and hs = alice_headers and L = sample_platform] a
  have 1: "readTodoResource sample_platform None sample_db (''todo://'' @ xyz_id) alice_headers =
        Inl (Error (''Error reading TODO resource: TODO with ID '' @ dquote @ xyz_id @ dquote @
                    '' not found''))"
    by simp
  from readTodoResource_raises_or_serializes
         [where d = sample_db and i = abc_id and hs = alice_headers and L = sample_platform
            and todo = abc_todo] b j
  have 2: "readTodoResource sample_platform None sample_db (''todo://'' @ abc_id) alice_headers =
        Inr \<lparr> contents = [(''todo://'' @ abc_id, ''{ id: '' @ abc_id @ '' }'')] \<rparr>"
    by simp
  from readTodoResource_raises_or_serializes
         [where d = sample_db and i = "''stats''" and hs = alice_headers and L = sample_platform] s
  have 3: "readTodoResource sample_platform None sample_db ''todo://stats'' alice_headers =
        Inl (Error (''Error reading TODO resource: invalid input syntax for type uuid: '' @
                    dquote @ ''stats'' @ dquote))"
    by simp
  from 1 2 3 show ?thesis by (intro conjI)
qed

subsection \<open>Resource links\<close>

lemma TodoFilterSchema_no_params:
  "TodoFilterSchema no_params =
     Inr \<lparr> f_completed = None, f_priority = None, f_search = None,
           f_limit = Some 50, f_offset = Some 0 \<rparr>"
  by (simp add: TodoFilterSchema_def no_params_def z_object_def z_field_def z_optional_def
        z_default_def)

text \<open>
  Claim C7, at a store with one item of the caller: \<open>getTodoResources\<close> returns two
  texts and no resource link, although the link built for the item has the address, name,
  media type and description the claim describes.
\<close>

theorem getTodoResources_returns_no_link:
  "tool_getTodoResources sample_platform None storage_order sample_db no_params alice_headers =
     Inr \<lparr> content =
            [Text (memo @ '' Available TODO resources (1 items):''),
             Text (nl @ ''You can read any of these resources using their URI.'')] \<rparr>
   \<and> resourceLinks sample_platform [abc_todo] =
       [ResourceLink (''todo://'' @ abc_id) ''abc'' ''application/json''
          (Some ''Pending - medium priority'')]"
proof -
  have lim: "f_limit no_filter = Some (of_nat 50)" "f_offset no_filter = Some (of_nat 0)"
    by (simp_all add: no_filter_def)
  have m: "filter (passes sample_platform ''alice'' no_filter) (todo_items sample_db) = [abc_todo]"
    by (simp add: sample_passes sample_db_def)
  from getAllTodos_window [OF lim, of sample_platform storage_order sample_db "''alice''"] m
  have g: "getAllTodos sample_platform None storage_order sample_db ''alice'' no_filter
      = Inr ([abc_todo], 1)"
    by (simp add: listing_def)
  have n: "show_nat (Suc 0) = ''1''"
    by code_simp
  show ?thesis
    by (simp add: tool_getTodoResources_def try_catch_def TodoFilterSchema_no_params g
          no_filter_def [symmetric] resourceLinks_def n abc_todo_def)
qed

subsection \<open>The filter schema\<close>

lemma issues_of_simps [simp]: "issues_of (Inl is) = is" "issues_of (Inr x) = []"
  by (simp_all add: issues_of_def)

lemma issues_of_z_field [simp]: "issues_of (z_field rf rx) = issues_of rf @ issues_of rx"
  by (simp add: issues_of_def z_field_def split: sum.splits)

lemma isl_z_field [simp]: "isl (z_field rf rx) \<longleftrightarrow> isl rf \<or> isl rx"
  by (simp add: z_field_def split: sum.splits)

lemma projr_z_field [simp]:
  "\<not> isl rf \<Longrightarrow> \<not> isl rx \<Longrightarrow> projr (z_field rf rx) = (projr rf) (projr rx)"
  by (cases rf; cases rx) (simp_all add: z_field_def)

lemma z_field_Inr_iff:
  "z_field rf rx = Inr y \<longleftrightarrow> (\<exists>g x. rf = Inr g \<and> rx = Inr x \<and> y = g x)"
  by (auto simp: z_field_def split: sum.splits)

lemma z_object_JObj:
  "z_object shape (JObj obj) =
     (if isl (shape obj) then Inl (ZodError (issues_of (shape obj))) else Inr (projr (shape obj)))"
  by (simp add: z_object_def issues_of_def split: sum.splits)

lemma limit_parse:
  "z_default 50 (z_number ''limit'' [min_number ''limit'' 1, max_number ''limit'' 100]) v =
     (if limit_accepted v then Inr (case v of JNum n \<Rightarrow> n | _ \<Rightarrow> 50)
      else Inl [issue (case v of JNum n \<Rightarrow> if n < 1 then too_small else too_big
                               | _ \<Rightarrow> invalid_type) ''limit'' None])"
  by (cases v)
     (auto simp: z_default_def z_number_def checked_def min_number_def max_number_def
        limit_accepted_def)

lemma offset_parse:
  "z_default 0 (z_number ''offset'' [min_number ''offset'' 0]) v =
     (if offset_accepted v then Inr (case v of JNum n \<Rightarrow> n | _ \<Rightarrow> 0)
      else Inl [issue (case v of JNum n \<Rightarrow> too_small | _ \<Rightarrow> invalid_type) ''offset'' None])"
  by (cases v)
     (auto simp: z_default_def z_number_def checked_def min_number_def offset_accepted_def)

lemma optional_undefined [simp]: "z_optional schema JUndefined = Inr None"
  by (simp add: z_optional_def)

lemma TodoFilterSchema_accepts:
  assumes "TodoFilterSchema (JObj obj) = Inr f"
  shows "limit_accepted (obj ''limit'') \<and> offset_accepted (obj ''offset'')
       \<and> f_limit f = Some (case obj ''limit'' of JNum n \<Rightarrow> n | _ \<Rightarrow> 50)
       \<and> f_offset f = Some (case obj ''offset'' of JNum n \<Rightarrow> n | _ \<Rightarrow> 0)"
  using assms unfolding TodoFilterSchema_def z_object_JObj limit_parse offset_parse
  by (auto simp: z_field_Inr_iff split: if_splits)

lemma TodoFilterSchema_rejects_limit:
  assumes "\<not> limit_accepted (obj ''limit'')"
  shows "\<exists>e. TodoFilterSchema (JObj obj) = Inl e \<and> names_field ''limit'' e"
  using assms unfolding TodoFilterSchema_def z_object_JObj limit_parse offset_parse
  by (simp add: names_field_def issue_def)

lemma TodoFilterSchema_rejects_offset:
  assumes "\<not> offset_accepted (obj ''offset'')"
  shows "\<exists>e. TodoFilterSchema (JObj obj) = Inl e \<and> names_field ''offset'' e"
  using assms unfolding TodoFilterSchema_def z_object_JObj limit_parse offset_parse
  by (simp add: names_field_def issue_def)

lemma TodoFilterSchema_accepts_numbers:
  assumes "limit_accepted (obj ''limit'')" and "offset_accepted (obj ''offset'')"
      and "obj ''completed'' = JUndefined" and "obj ''priority'' = JUndefined"
      and "obj ''search'' = JUndefined"
  shows "\<exists>f. TodoFilterSchema (JObj obj) = Inr f"
  using assms unfolding TodoFilterSchema_def z_object_JObj limit_parse offset_parse
  by simp

lemma rejected_filter_reaches_no_store:
  assumes "TodoFilterSchema params = Inl e"
  shows "tool_listTodos L fault rank d params hs = Inr (failure L '' Error listing TODOs: '' e)"
    and "tool_getTodoResources L fault rank d params hs =
           Inr (failure L '' Error getting TODO resources: '' e)"
  using assms by (simp_all add: tool_listTodos_def tool_getTodoResources_def try_catch_def)

text \<open>
  Claim C8, amended. \<open>TodoFilterSchema\<close> accepts a \<open>limit\<close> only when it is absent
  (then 50) or a number, integer or not, from 1 to 100, and an \<open>offset\<close> only when it is
  absent (then 0) or a number, integer or not, that is at least 0; it accepts every such
  pair when the other fields are absent; every other value of either field is rejected with
  a \<open>ZodError\<close> that has an issue with the path of the field; and a rejected filter makes
  \<open>listTodos\<close> and \<open>getTodoResources\<close> answer with that error whatever the store holds.
\<close>

theorem TodoFilterSchema_limit_offset:
  "(TodoFilterSchema (JObj obj) = Inr f \<longrightarrow>
       limit_accepted (obj ''limit'') \<and> offset_accepted (obj ''offset'')
       \<and> f_limit f = Some (case obj ''limit'' of JNum n \<Rightarrow> n | _ \<Rightarrow> 50)
       \<and> f_offset f = Some (case obj ''offset'' of JNum n \<Rightarrow> n | _ \<Rightarrow> 0))
   \<and> (\<not> limit_accepted (obj ''limit'') \<longrightarrow>
         (\<exists>e. TodoFilterSchema (JObj obj) = Inl e \<and> names_field ''limit'' e))
   \<and> (\<not> offset_accepted (obj ''offset'') \<longrightarrow>
         (\<exists>e. TodoFilterSchema (JObj obj) = Inl e \<and> names_field ''offset'' e))
   \<and> (limit_accepted (obj ''limit'') \<and> offset_accepted (obj ''offset'')
        \<and> obj ''completed'' = JUndefined \<and> obj ''priority'' = JUndefined
        \<and> obj ''search'' = JUndefined \<longrightarrow>
         (\<exists>g. TodoFilterSchema (JObj obj) = Inr g))
   \<and> (TodoFilterSchema params = Inl e \<longrightarrow>
         tool_listTodos L fault rank d params hs = Inr (failure L '' Error listing TODOs: '' e)
       \<and> tool_getTodoResources L fault rank d params hs =
           Inr (failure L '' Error getting TODO resources: '' e))"
  using TodoFilterSchema_accepts [of obj f] TodoFilterSchema_rejects_limit [of obj]
    TodoFilterSchema_rejects_offset [of obj] TodoFilterSchema_accepts_numbers [of obj]
    rejected_filter_reaches_no_store [of params e L fault rank d hs]
  by blast

theorem TodoFilterSchema_limit_offset_witness:
  "TodoFilterSchema (limit_params (JNum 10)) = Inr (no_filter\<lparr>f_limit := Some 10\<rparr>)
   \<and> (\<exists>e. TodoFilterSchema (limit_params (JNum 0)) = Inl e \<and> names_field ''limit'' e)
   \<and> (\<exists>e. TodoFilterSchema (limit_params (JStr ''ten'')) = Inl e \<and> names_field ''limit'' e)"
proof -
  have ok: "TodoFilterSchema (limit_params (JNum 10)) = Inr (no_filter\<lparr>f_limit := Some 10\<rparr>)"
    unfolding TodoFilterSchema_def limit_params_def z_object_JObj limit_parse offset_parse
    by (simp add: limit_accepted_def offset_accepted_def z_field_def no_filter_def)
  have bad: "\<not> limit_accepted (if ''limit'' = ''limit'' then JNum 0 else JUndefined)"
    "\<not> limit_accepted (if ''limit'' = ''limit'' then JStr ''ten'' else JUndefined)"
    by (simp_all add: limit_accepted_def)
  from ok bad
    TodoFilterSchema_limit_offset [of "\<lambda>k. if k = ''limit'' then JNum 0 else JUndefined"]
    TodoFilterSchema_limit_offset [of "\<lambda>k. if k = ''limit'' then JStr ''ten'' else JUndefined"]
  show ?thesis unfolding limit_params_def by blast
qed

text \<open>Claim C8 as stated fails: the limit \<open>3/2\<close>, not an integer, is accepted.\<close>

theorem fractional_limit_counterexample:
  "TodoFilterSchema half_limit = Inr (no_filter\<lparr>f_limit := Some (3 / 2)\<rparr>)
   \<and> \<not> is_integer (3 / 2)"
proof -
  have "TodoFilterSchema half_limit = Inr (no_filter\<lparr>f_limit := Some (3 / 2)\<rparr>)"
    unfolding TodoFilterSchema_def half_limit_def z_object_JObj limit_parse offset_parse
    by (simp add: limit_accepted_def offset_accepted_def z_field_def no_filter_def)
  moreover have "\<not> is_integer (3 / 2)"
  proof -
    have "\<lfloor>3 / 2 :: rat\<rfloor> = 1" by (simp add: floor_eq_iff)
    then show ?thesis by (simp add: is_integer_def)
  qed
  ultimately show ?thesis by simp
qed

subsection \<open>The prompt template\<close>

lemma or_else_supplied: "supplied x \<Longrightarrow> x = Some v \<Longrightarrow> or_else x dflt = v"
  by (simp add: or_else_def supplied_def)

lemma or_else_omitted: "\<not> supplied x \<Longrightarrow> or_else x dflt = dflt"
  by (simp add: or_else_def supplied_def split: option.splits)

lemma prompt_lines:
  "sublist (''Title: '' @ or_else (p_title params) ''[Please provide a title]'' @ nl)
     (prompt_text params)"
  "sublist (''Description: '' @ or_else (p_description params) ''[Optional description]'' @ nl)
     (prompt_text params)"
  "sublist (''Priority: '' @ or_else (p_priority params) ''medium'' @ nl) (prompt_text params)"
  "sublist (''Due Date: '' @ or_else (p_due_date params) ''[Optional due date]'' @ nl)
     (prompt_text params)"
proof -
  let ?a = "''Please help me create a TODO item with the following details:'' @ nl"
  let ?t = "''Title: '' @ or_else (p_title params) ''[Please provide a title]'' @ nl"
  let ?d = "''Description: '' @ or_else (p_description params) ''[Optional description]'' @ nl"
  let ?p = "''Priority: '' @ or_else (p_priority params) ''medium'' @ nl"
  let ?u = "''Due Date: '' @ or_else (p_due_date params) ''[Optional due date]'' @ nl"
  let ?z = "nl @ ''Please provide any additional suggestions or improvements for this TODO item.''"
  have whole: "prompt_text params = ?a @ ?t @ ?d @ ?p @ ?u @ ?z"
    by (simp add: prompt_text_def getCreateTodoPrompt_def)
  show "sublist ?t (prompt_text params)"
    unfolding whole sublist_def by (rule exI [of _ ?a], rule exI [of _ "?d @ ?p @ ?u @ ?z"]) simp
  show "sublist ?d (prompt_text params)"
    unfolding whole sublist_def by (rule exI [of _ "?a @ ?t"], rule exI [of _ "?p @ ?u @ ?z"]) simp
  show "sublist ?p (prompt_text params)"
    unfolding whole sublist_def by (rule exI [of _ "?a @ ?t @ ?d"], rule exI [of _ "?u @ ?z"]) simp
  show "sublist ?u (prompt_text params)"
    unfolding whole sublist_def by (rule exI [of _ "?a @ ?t @ ?d @ ?p"], rule exI [of _ "?z"]) simp
qed

text \<open>
  Claim C9, amended. For every combination of the four optional arguments,
  \<open>getCreateTodoPrompt\<close> produces exactly one message, of role user, whose text holds
  the line of each argument with the value supplied; for an argument left out (or empty) the
  line holds a placeholder in square brackets for the title, the description and the due
  date, and the default \<open>medium\<close> for the priority.
\<close>

theorem getCreateTodoPrompt_message:
  "(\<exists>t. getCreateTodoPrompt params = \<lparr> messages = [(User, t)] \<rparr> \<and> prompt_text params = t)
   \<and> (supplied (p_title params) \<and> p_title params = Some v1 \<longrightarrow>
        sublist (''Title: '' @ v1 @ nl) (prompt_text params))
   \<and> (supplied (p_description params) \<and> p_description params = Some v2 \<longrightarrow>
        sublist (''Description: '' @ v2 @ nl) (prompt_text params))
   \<and> (supplied (p_priority params) \<and> p_priority params = Some v3 \<longrightarrow>
        sublist (''Priority: '' @ v3 @ nl) (prompt_text params))
   \<and> (supplied (p_due_date params) \<and> p_due_date params = Some v4 \<longrightarrow>
        sublist (''Due Date: '' @ v4 @ nl) (prompt_text params))
   \<and> (\<not> supplied (p_title params) \<longrightarrow>
        sublist (''Title: '' @ ''[Please provide a title]'' @ nl) (prompt_text params))
   \<and> (\<not> supplied (p_description params) \<longrightarrow>
        sublist (''Description: '' @ ''[Optional description]'' @ nl) (prompt_text params))
   \<and> (\<not> supplied (p_priority params) \<longrightarrow>
        sublist (''Priority: '' @ ''medium'' @ nl) (prompt_text params))
   \<and> (\<not> supplied (p_due_date params) \<longrightarrow>
        sublist (''Due Date: '' @ ''[Optional due date]'' @ nl) (prompt_text params))
   \<and> bracketed ''[Please provide a title]'' \<and> bracketed ''[Optional description]''
   \<and> bracketed ''[Optional due date]''"
proof (intro conjI impI)
  show "\<exists>t. getCreateTodoPrompt params = \<lparr> messages = [(User, t)] \<rparr> \<and> prompt_text params = t"
    by (simp add: getCreateTodoPrompt_def prompt_text_def)
next
  assume "supplied (p_title params) \<and> p_title params = Some v1"
  then have "or_else (p_title params) ''[Please provide a title]'' = v1"
    by (auto simp: or_else_def supplied_def)
  with prompt_lines(1) [of params] show "sublist (''Title: '' @ v1 @ nl) (prompt_text params)"
    by simp
next
  assume "supplied (p_description params) \<and> p_description params = Some v2"
  then have "or_else (p_description params) ''[Optional description]'' = v2"
    by (auto simp: or_else_def supplied_def)
  with prompt_lines(2) [of params]
  show "sublist (''Description: '' @ v2 @ nl) (prompt_text params)"
    by simp
next
  assume "supplied (p_priority params) \<and> p_priority params = Some v3"
  then have "or_else (p_priority params) ''medium'' = v3"
    by (auto simp: or_else_def supplied_def)
  with prompt_lines(3) [of params] show "sublist (''Priority: '' @ v3 @ nl) (prompt_text params)"
    by simp
next
  assume "supplied (p_due_date params) \<and> p_due_date params = Some v4"
  then have "or_else (p_due_date params) ''[Optional due date]'' = v4"
    by (auto simp: or_else_def supplied_def)
  with prompt_lines(4) [of params] show "sublist (''Due Date: '' @ v4 @ nl) (prompt_text params)"
    by simp
next
  assume "\<not> supplied (p_title params)"
  then have "or_else (p_title params) ''[Please provide a title]'' = ''[Please provide a title]''"
    by (rule or_else_omitted)
  with prompt_lines(1) [of params]
  show "sublist (''Title: '' @ ''[Please provide a title]'' @ nl) (prompt_text params)"
    by simp
next
  assume "\<not> supplied (p_description params)"
  then have "or_else (p_description params) ''[Optional description]'' = ''[Optional description]''"
    by (rule or_else_omitted)
  with prompt_lines(2) [of params]
  show "sublist (''Description: '' @ ''[Optional description]'' @ nl) (prompt_text params)"
    by simp
next
  assume "\<not> supplied (p_priority params)"
  then have "or_else (p_priority params) ''medium'' = ''medium''"
    by (rule or_else_omitted)
  with prompt_lines(3) [of params]
  show "sublist (''Priority: '' @ ''medium'' @ nl) (prompt_text params)"
    by simp
next
  assume "\<not> supplied (p_due_date params)"
  then have "or_else (p_due_date params) ''[Optional due date]'' = ''[Optional due date]''"
    by (rule or_else_omitted)
  with prompt_lines(4) [of params]
  show "sublist (''Due Date: '' @ ''[Optional due date]'' @ nl) (prompt_text params)"
    by simp
qed (simp_all add: bracketed_def)

theorem getCreateTodoPrompt_message_witness:
  "sublist (''Title: '' @ ''New task'' @ nl)
      (prompt_text (no_prompt_params\<lparr>p_title := Some ''New task''\<rparr>))
   \<and> sublist (''Priority: '' @ ''medium'' @ nl)
      (prompt_text (no_prompt_params\<lparr>p_title := Some ''New task''\<rparr>))
   \<and> sublist (''Due Date: '' @ ''[Optional due date]'' @ nl)
      (prompt_text (no_prompt_params\<lparr>p_title := Some ''New task''\<rparr>))"
proof -
  let ?p = "no_prompt_params\<lparr>p_title := Some ''New task''\<rparr>"
  have s: "supplied (p_title ?p)" "p_title ?p = Some ''New task''"
    "\<not> supplied (p_priority ?p)" "\<not> supplied (p_due_date ?p)"
    by (simp_all add: supplied_def no_prompt_params_def)
  from getCreateTodoPrompt_message [of ?p "''New task''"] s
  show ?thesis by blast
qed

text \<open>
  Claim C9 as stated fails: with the priority left out, no bracket follows \<open>Priority:\<close>
  in the text; what stands there, \<open>medium\<close>, is not in brackets.
\<close>

theorem prompt_priority_counterexample:
  "\<not> supplied (p_priority no_prompt_params)
   \<and> \<not> sublist ''Priority: ['' (prompt_text no_prompt_params)
   \<and> \<not> bracketed ''medium''"
proof -
  have "prompt_text no_prompt_params =
      ''Please help me create a TODO item with the following details:'' @ nl @
      ''Title: [Please provide a title]'' @ nl @
      ''Description: [Optional description]'' @ nl @
      ''Priority: medium'' @ nl @
      ''Due Date: [Optional due date]'' @ nl @ nl @
      ''Please provide any additional suggestions or improvements for this TODO item.''"
    by (simp add: prompt_text_def getCreateTodoPrompt_def no_prompt_params_def or_else_def)
  moreover have "\<not> sublist ''Priority: [''
     (''Please help me create a TODO item with the following details:'' @ nl @
      ''Title: [Please provide a title]'' @ nl @
      ''Description: [Optional description]'' @ nl @
      ''Priority: medium'' @ nl @
      ''Due Date: [Optional due date]'' @ nl @ nl @
      ''Please provide any additional suggestions or improvements for this TODO item.'')"
    by code_simp
  ultimately have "\<not> sublist ''Priority: ['' (prompt_text no_prompt_params)"
    by simp
  then show ?thesis
    by (simp add: supplied_def no_prompt_params_def bracketed_def)
qed

subsection \<open>Identity\<close>

text \<open>
  Claim C10. \<open>extractUserInfo\<close> is a function of the headers alone, and a header that
  holds the empty string gives the same identity as the header left out; for the three
  identity headers the field is then the anonymous value. A value that is not empty is
  taken as it is.
\<close>

theorem extractUserInfo_empty_header_is_absent:
  "extractUserInfo (hs(k := Some [])) = extractUserInfo (hs(k := None))
   \<and> uid (extractUserInfo (hs(''x-forwarded-user'' := Some []))) = ''anonymous''
   \<and> email (extractUserInfo (hs(''x-forwarded-email'' := Some []))) = ''anonymous@example.com''
   \<and> name (extractUserInfo (hs(''x-forwarded-name'' := Some []))) = ''Anonymous User''
   \<and> uid (extractUserInfo (hs(''x-forwarded-user'' := None))) = ''anonymous''
   \<and> email (extractUserInfo (hs(''x-forwarded-email'' := None))) = ''anonymous@example.com''
   \<and> name (extractUserInfo (hs(''x-forwarded-name'' := None))) = ''Anonymous User''
   \<and> (v \<noteq> [] \<longrightarrow>
        uid (extractUserInfo (hs(''x-forwarded-user'' := Some v))) = v
      \<and> email (extractUserInfo (hs(''x-forwarded-email'' := Some v))) = v
      \<and> name (extractUserInfo (hs(''x-forwarded-name'' := Some v))) = v)"
  by (simp add: extractUserInfo_def or_else_def Let_def)

theorem extractUserInfo_empty_header_is_absent_witness:
  "extractUserInfo (alice_headers(''x-forwarded-email'' := Some [])) =
     \<lparr> uid = ''alice'', email = ''anonymous@example.com'', name = ''Anonymous User'' \<rparr>
   \<and> uid (extractUserInfo (alice_headers(''x-forwarded-user'' := Some ''bob''))) = ''bob''"
proof -
  have "extractUserInfo (alice_headers(''x-forwarded-email'' := None)) =
     \<lparr> uid = ''alice'', email = ''anonymous@example.com'', name = ''Anonymous User'' \<rparr>"
    by (simp add: extractUserInfo_def or_else_def alice_headers_def)
  with extractUserInfo_empty_header_is_absent [of alice_headers "''x-forwarded-email''" "''bob''"]
  show ?thesis by simp
qed

end
